theory Spec2Isabelle
  imports Main
begin

section \<open>The script \<open>tools/qwen_image_pipeline.py\<close>\<close>

text \<open>
  The repository is one Python module of 73 lines. It holds, twice over, a direct-API
  workflow (import, load processor and model, build the message list, render it, generate,
  decode the new tokens, print) followed by a pipeline workflow (import, build the pipeline
  callable, build the message list, call it). Every computation happens inside the
  \<open>transformers\<close> library, which is not part of the repository: the library is a parameter
  of the model, a record of operations acting on an external world of arbitrary type.
\<close>

subsection \<open>Python values, exceptions, tensors\<close>

text \<open>The literals of the script are strings, lists and dictionaries keyed by strings.\<close>

datatype pyval = PStr string | PList "pyval list" | PDict "(string \<times> pyval) list"

text \<open>An exception is its class name with its message.\<close>

datatype exn = Exn string string

definition IndexError :: exn where
  "IndexError = Exn ''IndexError'' ''index 0 is out of bounds for dimension 0 with size 0''"

definition NameError :: "string \<Rightarrow> exn" where
  "NameError x = Exn ''NameError'' x"

type_synonym token = int

text \<open>
  A two-dimensional tensor of token ids of shape \<open>(length rows, ncols)\<close>. The shape is kept
  beside the rows, since a tensor with no row still has a last dimension.
\<close>

datatype tensor2 = Tensor2 (ncols: nat) (rows: "token list list")

text \<open>\<open>t.shape[-1]\<close>\<close>

definition shape_last :: "tensor2 \<Rightarrow> int" where
  "shape_last t = int (ncols t)"

text \<open>\<open>t[0]\<close>: the first row, IndexError on a tensor with no row.\<close>

definition tensor_getitem0 :: "tensor2 \<Rightarrow> exn + token list" where
  "tensor_getitem0 t = (case rows t of [] \<Rightarrow> Inl IndexError | r # _ \<Rightarrow> Inr r)"

text \<open>
  \<open>xs[i:]\<close>: a negative start counts from the end, and a start outside the sequence is
  clamped; the slice never raises.
\<close>

definition slice_from :: "'a list \<Rightarrow> int \<Rightarrow> 'a list" where
  "slice_from xs i =
     (let n = int (length xs);
          start = (if i < 0 then max (n + i) 0 else min i n)
      in drop (nat start) xs)"

subsection \<open>The external library\<close>

text \<open>
  The operations of \<open>transformers\<close> that the script calls. \<open>'p\<close> is the processor, \<open>'m\<close> the
  model, \<open>'i\<close> the rendered input bundle, \<open>'c\<close> the pipeline callable and \<open>'w\<close> the world the
  library acts on (network, caches, devices, random state). An operation returns an
  exception or a value, and the world it leaves.
\<close>

record ('p, 'm, 'i, 'c, 'w) transformers =
  import_from :: "string list \<Rightarrow> 'w \<Rightarrow> (exn + unit) \<times> 'w"
  AutoProcessor_from_pretrained :: "string \<Rightarrow> 'w \<Rightarrow> (exn + 'p) \<times> 'w"
  AutoModelForVision2Seq_from_pretrained :: "string \<Rightarrow> 'w \<Rightarrow> (exn + 'm) \<times> 'w"
  apply_chat_template ::
    "'p \<Rightarrow> pyval \<Rightarrow> bool \<Rightarrow> bool \<Rightarrow> bool \<Rightarrow> string \<Rightarrow> 'w \<Rightarrow> (exn + 'i) \<times> 'w"
  device :: "'m \<Rightarrow> string"
  to_device :: "'i \<Rightarrow> string \<Rightarrow> 'w \<Rightarrow> (exn + 'i) \<times> 'w"
  generate :: "'m \<Rightarrow> 'i \<Rightarrow> int \<Rightarrow> 'w \<Rightarrow> (exn + tensor2) \<times> 'w"
  getitem :: "'i \<Rightarrow> string \<Rightarrow> exn + tensor2"
  decode :: "'p \<Rightarrow> token list \<Rightarrow> 'w \<Rightarrow> (exn + string) \<times> 'w"
  pipeline :: "string \<Rightarrow> string \<Rightarrow> 'w \<Rightarrow> (exn + 'c) \<times> 'w"
  pipe_call :: "'c \<Rightarrow> pyval \<Rightarrow> 'w \<Rightarrow> (exn + pyval) \<times> 'w"

subsection \<open>The process\<close>

text \<open>
  The state of the running module: its six global variables (unbound at the start), what
  its own statements have written to standard output, the calls it has made into the library
  with their outcome (\<open>None\<close> for a return, \<open>Some e\<close> for a raise), and the external world.
  The library acts on the world alone: it neither rebinds a variable of the module nor
  writes to its standard output.
\<close>

record ('p, 'm, 'i, 'c, 'w) process =
  processor :: "'p option"
  model :: "'m option"
  messages :: "pyval option"
  inputs :: "'i option"
  outputs :: "tensor2 option"
  pipe :: "'c option"
  stdout :: string
  trace :: "(string \<times> exn option) list"
  world :: 'w

definition initial :: "'w \<Rightarrow> ('p, 'm, 'i, 'c, 'w) process" where
  "initial w = \<lparr>processor = None, model = None, messages = None, inputs = None,
     outputs = None, pipe = None, stdout = [], trace = [], world = w\<rparr>"

type_synonym ('a, 's) script = "'s \<Rightarrow> (exn + 'a) \<times> 's"

text \<open>
  Sequencing: a raised exception skips the rest. The module has no \<open>try\<close> statement, so
  this is the only way two computations are ever combined.
\<close>

definition bindE :: "('a, 's) script \<Rightarrow> ('a \<Rightarrow> ('b, 's) script) \<Rightarrow> ('b, 's) script" where
  "bindE m f = (\<lambda>s. case m s of (Inl e, s') \<Rightarrow> (Inl e, s') | (Inr a, s') \<Rightarrow> f a s')"

fun run_stmts :: "(unit, 's) script list \<Rightarrow> (unit, 's) script" where
  "run_stmts [] = (\<lambda>s. (Inr (), s))"
| "run_stmts (c # cs) = bindE c (\<lambda>_. run_stmts cs)"

text \<open>A call into the library: it changes the world and is recorded in the trace.\<close>

definition external ::
  "string \<Rightarrow> ('w \<Rightarrow> (exn + 'a) \<times> 'w) \<Rightarrow> ('a, ('p, 'm, 'i, 'c, 'w) process) script" where
  "external name operation = (\<lambda>s. case operation (world s) of
       (Inl e, w') \<Rightarrow> (Inl e, s\<lparr>trace := trace s @ [(name, Some e)], world := w'\<rparr>)
     | (Inr a, w') \<Rightarrow> (Inr a, s\<lparr>trace := trace s @ [(name, None)], world := w'\<rparr>))"

text \<open>Reading a global variable: NameError when it is unbound.\<close>

definition name_lookup :: "string \<Rightarrow> ('s \<Rightarrow> 'a option) \<Rightarrow> ('a, 's) script" where
  "name_lookup x var = (\<lambda>s. case var s of None \<Rightarrow> (Inl (NameError x), s) | Some v \<Rightarrow> (Inr v, s))"

definition assign :: "('s \<Rightarrow> 's) \<Rightarrow> (unit, 's) script" where
  "assign upd = (\<lambda>s. (Inr (), upd s))"

text \<open>\<open>print(t)\<close> writes the text and a newline.\<close>

definition py_print :: "string \<Rightarrow> (unit, ('p, 'm, 'i, 'c, 'w) process) script" where
  "py_print t = (\<lambda>s. (Inr (), s\<lparr>stdout := stdout s @ t @ [CHR 0x0A]\<rparr>))"

subsection \<open>First copy, lines 1 to 37\<close>

definition line_2 :: "('p, 'm, 'i, 'c, 'w) transformers \<Rightarrow> (unit, ('p, 'm, 'i, 'c, 'w) process) script" where
  "line_2 lib = external ''import''
     (import_from lib [''AutoProcessor'', ''AutoModelForVision2Seq''])"

definition line_4 :: "('p, 'm, 'i, 'c, 'w) transformers \<Rightarrow> (unit, ('p, 'm, 'i, 'c, 'w) process) script" where
  "line_4 lib =
     bindE (external ''AutoProcessor.from_pretrained''
              (AutoProcessor_from_pretrained lib ''Qwen/Qwen3-VL-8B-Instruct''))
       (\<lambda>v. assign (\<lambda>s. s\<lparr>processor := Some v\<rparr>))"

definition line_5 :: "('p, 'm, 'i, 'c, 'w) transformers \<Rightarrow> (unit, ('p, 'm, 'i, 'c, 'w) process) script" where
  "line_5 lib =
     bindE (external ''AutoModelForVision2Seq.from_pretrained''
              (AutoModelForVision2Seq_from_pretrained lib ''Qwen/Qwen3-VL-8B-Instruct''))
       (\<lambda>v. assign (\<lambda>s. s\<lparr>model := Some v\<rparr>))"

definition messages_6 :: pyval where
  "messages_6 = PList [
     PDict [
       (''role'', PStr ''user''),
       (''content'', PList [
          PDict [(''type'', PStr ''image''), (''url'', PStr ''https://huggingface.co/datasets/huggingface/documentation-images/resolve/main/p-blog/candy.JPG'')],
          PDict [(''type'', PStr ''text''), (''text'', PStr ''What animal is on the candy?'')]
        ])
     ]
   ]"

definition line_6 :: "(unit, ('p, 'm, 'i, 'c, 'w) process) script" where
  "line_6 = assign (\<lambda>s. s\<lparr>messages := Some messages_6\<rparr>)"

text \<open>
  Lines 15 to 21: \<open>processor.apply_chat_template(messages, add_generation_prompt=True,
  tokenize=True, return_dict=True, return_tensors="pt").to(model.device)\<close>.
\<close>

definition line_15 :: "('p, 'm, 'i, 'c, 'w) transformers \<Rightarrow> (unit, ('p, 'm, 'i, 'c, 'w) process) script" where
  "line_15 lib =
     bindE (name_lookup ''processor'' processor) (\<lambda>p.
     bindE (name_lookup ''messages'' messages) (\<lambda>ms.
     bindE (external ''apply_chat_template''
              (apply_chat_template lib p ms True True True ''pt'')) (\<lambda>t.
     bindE (name_lookup ''model'' model) (\<lambda>m.
     bindE (external ''to'' (to_device lib t (device lib m))) (\<lambda>v.
     assign (\<lambda>s. s\<lparr>inputs := Some v\<rparr>))))))"

text \<open>Line 23: \<open>outputs = model.generate(**inputs, max_new_tokens=40)\<close>.\<close>

definition line_23 :: "('p, 'm, 'i, 'c, 'w) transformers \<Rightarrow> (unit, ('p, 'm, 'i, 'c, 'w) process) script" where
  "line_23 lib =
     bindE (name_lookup ''model'' model) (\<lambda>m.
     bindE (name_lookup ''inputs'' inputs) (\<lambda>i.
     bindE (external ''generate'' (generate lib m i 40)) (\<lambda>v.
     assign (\<lambda>s. s\<lparr>outputs := Some v\<rparr>))))"

text \<open>
  The argument of \<open>decode\<close> on line 24, \<open>outputs[0][inputs["input_ids"].shape[-1]:]\<close>:
  the subscripted value \<open>outputs[0]\<close> is evaluated before the slice bound.
\<close>

definition generated_span :: "('p, 'm, 'i, 'c, 'w) transformers \<Rightarrow> (token list, ('p, 'm, 'i, 'c, 'w) process) script" where
  "generated_span lib =
     bindE (name_lookup ''outputs'' outputs) (\<lambda>out.
     bindE (external ''Tensor.__getitem__'' (\<lambda>w. (tensor_getitem0 out, w))) (\<lambda>row.
     bindE (name_lookup ''inputs'' inputs) (\<lambda>i.
     bindE (external ''BatchFeature.__getitem__'' (\<lambda>w. (getitem lib i ''input_ids'', w))) (\<lambda>ids.
     (\<lambda>s. (Inr (slice_from row (shape_last ids)), s))))))"

text \<open>Line 24: \<open>print(processor.decode(outputs[0][inputs["input_ids"].shape[-1]:]))\<close>.\<close>

definition line_24 :: "('p, 'm, 'i, 'c, 'w) transformers \<Rightarrow> (unit, ('p, 'm, 'i, 'c, 'w) process) script" where
  "line_24 lib =
     bindE (name_lookup ''processor'' processor) (\<lambda>p.
     bindE (generated_span lib) (\<lambda>toks.
     bindE (external ''decode'' (decode lib p toks)) (\<lambda>text.
     py_print text)))"

definition line_25 :: "('p, 'm, 'i, 'c, 'w) transformers \<Rightarrow> (unit, ('p, 'm, 'i, 'c, 'w) process) script" where
  "line_25 lib = external ''import'' (import_from lib [''pipeline''])"

definition line_27 :: "('p, 'm, 'i, 'c, 'w) transformers \<Rightarrow> (unit, ('p, 'm, 'i, 'c, 'w) process) script" where
  "line_27 lib =
     bindE (external ''pipeline''
              (pipeline lib ''image-text-to-text'' ''Qwen/Qwen3-VL-8B-Instruct''))
       (\<lambda>v. assign (\<lambda>s. s\<lparr>pipe := Some v\<rparr>))"

definition messages_28 :: pyval where
  "messages_28 = PList [
     PDict [
       (''role'', PStr ''user''),
       (''content'', PList [
          PDict [(''type'', PStr ''image''), (''url'', PStr ''https://huggingface.co/datasets/huggingface/documentation-images/resolve/main/p-blog/candy.JPG'')],
          PDict [(''type'', PStr ''text''), (''text'', PStr ''What animal is on the candy?'')]
        ])
     ]
   ]"

definition line_28 :: "(unit, ('p, 'm, 'i, 'c, 'w) process) script" where
  "line_28 = assign (\<lambda>s. s\<lparr>messages := Some messages_28\<rparr>)"

text \<open>
  Line 37: the expression statement \<open>pipe(text=messages)\<close>. A module run by the
  interpreter evaluates an expression statement and drops its value.
\<close>

definition line_37 :: "('p, 'm, 'i, 'c, 'w) transformers \<Rightarrow> (unit, ('p, 'm, 'i, 'c, 'w) process) script" where
  "line_37 lib =
     bindE (name_lookup ''pipe'' pipe) (\<lambda>c.
     bindE (name_lookup ''messages'' messages) (\<lambda>ms.
     bindE (external ''pipe'' (pipe_call lib c ms)) (\<lambda>_.
     (\<lambda>s. (Inr (), s)))))"

subsection \<open>Second copy, lines 38 to 73\<close>

definition line_38 :: "('p, 'm, 'i, 'c, 'w) transformers \<Rightarrow> (unit, ('p, 'm, 'i, 'c, 'w) process) script" where
  "line_38 lib = external ''import''
     (import_from lib [''AutoProcessor'', ''AutoModelForVision2Seq''])"

definition line_40 :: "('p, 'm, 'i, 'c, 'w) transformers \<Rightarrow> (unit, ('p, 'm, 'i, 'c, 'w) process) script" where
  "line_40 lib =
     bindE (external ''AutoProcessor.from_pretrained''
              (AutoProcessor_from_pretrained lib ''Qwen/Qwen3-VL-8B-Instruct''))
       (\<lambda>v. assign (\<lambda>s. s\<lparr>processor := Some v\<rparr>))"

definition line_41 :: "('p, 'm, 'i, 'c, 'w) transformers \<Rightarrow> (unit, ('p, 'm, 'i, 'c, 'w) process) script" where
  "line_41 lib =
     bindE (external ''AutoModelForVision2Seq.from_pretrained''
              (AutoModelForVision2Seq_from_pretrained lib ''Qwen/Qwen3-VL-8B-Instruct''))
       (\<lambda>v. assign (\<lambda>s. s\<lparr>model := Some v\<rparr>))"

definition messages_42 :: pyval where
  "messages_42 = PList [
     PDict [
       (''role'', PStr ''user''),
       (''content'', PList [
          PDict [(''type'', PStr ''image''), (''url'', PStr ''https://huggingface.co/datasets/huggingface/documentation-images/resolve/main/p-blog/candy.JPG'')],
          PDict [(''type'', PStr ''text''), (''text'', PStr ''What animal is on the candy?'')]
        ])
     ]
   ]"

definition line_42 :: "(unit, ('p, 'm, 'i, 'c, 'w) process) script" where
  "line_42 = assign (\<lambda>s. s\<lparr>messages := Some messages_42\<rparr>)"

definition line_51 :: "('p, 'm, 'i, 'c, 'w) transformers \<Rightarrow> (unit, ('p, 'm, 'i, 'c, 'w) process) script" where
  "line_51 lib =
     bindE (name_lookup ''processor'' processor) (\<lambda>p.
     bindE (name_lookup ''messages'' messages) (\<lambda>ms.
     bindE (external ''apply_chat_template''
              (apply_chat_template lib p ms True True True ''pt'')) (\<lambda>t.
     bindE (name_lookup ''model'' model) (\<lambda>m.
     bindE (external ''to'' (to_device lib t (device lib m))) (\<lambda>v.
     assign (\<lambda>s. s\<lparr>inputs := Some v\<rparr>))))))"

definition line_59 :: "('p, 'm, 'i, 'c, 'w) transformers \<Rightarrow> (unit, ('p, 'm, 'i, 'c, 'w) process) script" where
  "line_59 lib =
     bindE (name_lookup ''model'' model) (\<lambda>m.
     bindE (name_lookup ''inputs'' inputs) (\<lambda>i.
     bindE (external ''generate'' (generate lib m i 40)) (\<lambda>v.
     assign (\<lambda>s. s\<lparr>outputs := Some v\<rparr>))))"

definition line_60 :: "('p, 'm, 'i, 'c, 'w) transformers \<Rightarrow> (unit, ('p, 'm, 'i, 'c, 'w) process) script" where
  "line_60 lib =
     bindE (name_lookup ''processor'' processor) (\<lambda>p.
     bindE (bindE (name_lookup ''outputs'' outputs) (\<lambda>out.
            bindE (external ''Tensor.__getitem__'' (\<lambda>w. (tensor_getitem0 out, w))) (\<lambda>row.
            bindE (name_lookup ''inputs'' inputs) (\<lambda>i.
            bindE (external ''BatchFeature.__getitem__'' (\<lambda>w. (getitem lib i ''input_ids'', w))) (\<lambda>ids.
            (\<lambda>s. (Inr (slice_from row (shape_last ids)), s))))))) (\<lambda>toks.
     bindE (external ''decode'' (decode lib p toks)) (\<lambda>text.
     py_print text)))"

definition line_61 :: "('p, 'm, 'i, 'c, 'w) transformers \<Rightarrow> (unit, ('p, 'm, 'i, 'c, 'w) process) script" where
  "line_61 lib = external ''import'' (import_from lib [''pipeline''])"

definition line_63 :: "('p, 'm, 'i, 'c, 'w) transformers \<Rightarrow> (unit, ('p, 'm, 'i, 'c, 'w) process) script" where
  "line_63 lib =
     bindE (external ''pipeline''
              (pipeline lib ''image-text-to-text'' ''Qwen/Qwen3-VL-8B-Instruct''))
       (\<lambda>v. assign (\<lambda>s. s\<lparr>pipe := Some v\<rparr>))"

definition messages_64 :: pyval where
  "messages_64 = PList [
     PDict [
       (''role'', PStr ''user''),
       (''content'', PList [
          PDict [(''type'', PStr ''image''), (''url'', PStr ''https://huggingface.co/datasets/huggingface/documentation-images/resolve/main/p-blog/candy.JPG'')],
          PDict [(''type'', PStr ''text''), (''text'', PStr ''What animal is on the candy?'')]
        ])
     ]
   ]"

definition line_64 :: "(unit, ('p, 'm, 'i, 'c, 'w) process) script" where
  "line_64 = assign (\<lambda>s. s\<lparr>messages := Some messages_64\<rparr>)"

definition line_73 :: "('p, 'm, 'i, 'c, 'w) transformers \<Rightarrow> (unit, ('p, 'm, 'i, 'c, 'w) process) script" where
  "line_73 lib =
     bindE (name_lookup ''pipe'' pipe) (\<lambda>c.
     bindE (name_lookup ''messages'' messages) (\<lambda>ms.
     bindE (external ''pipe'' (pipe_call lib c ms)) (\<lambda>_.
     (\<lambda>s. (Inr (), s)))))"

subsection \<open>The module and the process boundary\<close>

definition module_stmts ::
  "('p, 'm, 'i, 'c, 'w) transformers \<Rightarrow> (unit, ('p, 'm, 'i, 'c, 'w) process) script list" where
  "module_stmts lib =
     [line_2 lib, line_4 lib, line_5 lib, line_6, line_15 lib, line_23 lib, line_24 lib,
      line_25 lib, line_27 lib, line_28, line_37 lib,
      line_38 lib, line_40 lib, line_41 lib, line_42, line_51 lib, line_59 lib, line_60 lib,
      line_61 lib, line_63 lib, line_64, line_73 lib]"

text \<open>The workflows of the first copy, as the comments of the file delimit them.\<close>

definition direct_api_workflow ::
  "('p, 'm, 'i, 'c, 'w) transformers \<Rightarrow> (unit, ('p, 'm, 'i, 'c, 'w) process) script list" where
  "direct_api_workflow lib =
     [line_2 lib, line_4 lib, line_5 lib, line_6, line_15 lib, line_23 lib, line_24 lib]"

definition pipeline_workflow ::
  "('p, 'm, 'i, 'c, 'w) transformers \<Rightarrow> (unit, ('p, 'm, 'i, 'c, 'w) process) script list" where
  "pipeline_workflow lib = [line_25 lib, line_27 lib, line_28, line_37 lib]"

text \<open>
  Running the file: the statements in order from the initial state. The process ends with
  status 0, or with status 1 and the exception nobody caught; either way standard output
  holds what was printed until then.
\<close>

definition python_main ::
  "('p, 'm, 'i, 'c, 'w) transformers \<Rightarrow> 'w \<Rightarrow> nat \<times> string \<times> exn option" where
  "python_main lib w =
     (case run_stmts (module_stmts lib) (initial w) of
        (Inr _, s) \<Rightarrow> (0, stdout s, None)
      | (Inl e, s) \<Rightarrow> (1, stdout s, Some e))"

subsection \<open>The message schema\<close>

text \<open>
  The schema the library accepts for a chat: a list of turns, each with a role and an
  ordered list of content parts; a part is an image reference (a URL) or a text fragment.
  The parsers read the dictionaries of the script into that shape.
\<close>

datatype part = Image string | Text string

record message =
  role :: string
  content :: "part list"

definition parse_part :: "pyval \<Rightarrow> part option" where
  "parse_part v = (case v of
       PDict d \<Rightarrow> (case map_of d ''type'' of
           Some (PStr k) \<Rightarrow>
             (if k = ''image'' then (case map_of d ''url'' of Some (PStr u) \<Rightarrow> Some (Image u) | _ \<Rightarrow> None)
              else if k = ''text'' then (case map_of d ''text'' of Some (PStr t) \<Rightarrow> Some (Text t) | _ \<Rightarrow> None)
              else None)
         | _ \<Rightarrow> None)
     | _ \<Rightarrow> None)"

definition parse_message :: "pyval \<Rightarrow> message option" where
  "parse_message v = (case v of
       PDict d \<Rightarrow> (case (map_of d ''role'', map_of d ''content'') of
           (Some (PStr r), Some (PList ps)) \<Rightarrow>
             (case those (map parse_part ps) of
                Some cs \<Rightarrow> Some \<lparr>role = r, content = cs\<rparr>
              | None \<Rightarrow> None)
         | _ \<Rightarrow> None)
     | _ \<Rightarrow> None)"

definition parse_messages :: "pyval \<Rightarrow> message list option" where
  "parse_messages v = (case v of PList ms \<Rightarrow> those (map parse_message ms) | _ \<Rightarrow> None)"

subsection \<open>A sample library\<close>

text \<open>
  A small instance of the library, used to run the module on concrete data. Its world is a
  counter that loading and generation advance; it renders every chat to three tokens and
  generates up to two more, which decode to \<open>ox\<close>; its pipeline answers \<open>cat\<close>.
\<close>

definition demo_lib :: "(string, string, token list, string, nat) transformers" where
  "demo_lib = \<lparr>
     import_from = (\<lambda>names w. (Inr (), w)),
     AutoProcessor_from_pretrained = (\<lambda>name w. (Inr name, Suc w)),
     AutoModelForVision2Seq_from_pretrained = (\<lambda>name w. (Inr name, Suc w)),
     apply_chat_template = (\<lambda>p ms agp tok rd rt w. (Inr [11, 12, 13], w)),
     device = (\<lambda>m. ''cpu''),
     to_device = (\<lambda>i d w. (Inr i, w)),
     generate = (\<lambda>m i cap w.
        if cap \<le> 0 then (Inl (Exn ''ValueError'' ''max_new_tokens must be greater than 0''), w)
        else (Inr (Tensor2 (length i + length (take (nat cap) [3, 7 :: int]))
                     [i @ take (nat cap) [3, 7]]), Suc w)),
     getitem = (\<lambda>i k. if k = ''input_ids'' then Inr (Tensor2 (length i) [i])
                       else Inl (Exn ''KeyError'' k)),
     decode = (\<lambda>p toks w. (Inr (map (\<lambda>t. if t = 3 then CHR ''o'' else CHR ''x'') toks), w)),
     pipeline = (\<lambda>task name w. (Inr name, Suc w)),
     pipe_call = (\<lambda>c ms w. (Inr (PList [PDict [(''generated_text'', PStr ''cat'')]]), w))
   \<rparr>"

subsection \<open>Traces\<close>

text \<open>
  A trace is quiet when every call in it returned. A script is fail-fast when, started after
  a quiet trace, it either leaves the trace quiet or ends by raising the exception of its
  last call, all earlier calls having returned.
\<close>

definition quiet :: "(string \<times> exn option) list \<Rightarrow> bool" where
  "quiet cs = list_all (\<lambda>c. snd c = None) cs"

definition fail_fast :: "('a, ('p, 'm, 'i, 'c, 'w) process) script \<Rightarrow> bool" where
  "fail_fast m = (\<forall>s r s'. m s = (r, s') \<longrightarrow> quiet (trace s) \<longrightarrow>
     (case r of
        Inr _ \<Rightarrow> quiet (trace s')
      | Inl e \<Rightarrow> quiet (trace s') \<or> (\<exists>n cs. trace s' = cs @ [(n, Some e)] \<and> quiet cs)))"

text \<open>The sample library on a device that runs out of memory during generation.\<close>

definition failing_lib :: "(string, string, token list, string, nat) transformers" where
  "failing_lib = demo_lib\<lparr>generate :=
     (\<lambda>m i cap w. (Inl (Exn ''RuntimeError'' ''CUDA out of memory''), w))\<rparr>"

subsection \<open>The contract of \<open>max_new_tokens\<close>\<close>

text \<open>
  What the library documents for the bound passed to \<open>generate\<close>: a returned row is longer
  than the input by at most that many tokens.
\<close>

definition honours_max_new_tokens :: "('p, 'm, 'i, 'c, 'w) transformers \<Rightarrow> bool" where
  "honours_max_new_tokens lib = (\<forall>m i cap w out w' ids.
     generate lib m i cap w = (Inr out, w') \<longrightarrow> getitem lib i ''input_ids'' = Inr ids \<longrightarrow>
     list_all (\<lambda>row. int (length row) \<le> int (ncols ids) + cap) (rows out))"

text \<open>A state of the process just after line 23, under the sample library.\<close>

definition demo_state :: "(string, string, token list, string, nat) process" where
  "demo_state = \<lparr>processor = Some ''Qwen/Qwen3-VL-8B-Instruct'',
     model = Some ''Qwen/Qwen3-VL-8B-Instruct'', messages = Some messages_6,
     inputs = Some [11, 12, 13], outputs = Some (Tensor2 5 [[11, 12, 13, 3, 7]]), pipe = None,
     stdout = [], trace = [], world = 3\<rparr>"

definition silent_state :: "(string, string, token list, string, nat) process" where
  "silent_state = demo_state\<lparr>outputs := Some (Tensor2 3 [[11, 12, 13]])\<rparr>"

subsection \<open>Rounds\<close>

text \<open>One round: the direct-API workflow, then the pipeline workflow.\<close>

definition one_round ::
  "('p, 'm, 'i, 'c, 'w) transformers \<Rightarrow> (unit, ('p, 'm, 'i, 'c, 'w) process) script list" where
  "one_round lib = direct_api_workflow lib @ pipeline_workflow lib"

text \<open>The library calls of a round that runs to its end, in order.\<close>

definition round_calls :: "string list" where
  "round_calls = [''import'', ''AutoProcessor.from_pretrained'',
     ''AutoModelForVision2Seq.from_pretrained'', ''apply_chat_template'', ''to'', ''generate'',
     ''Tensor.__getitem__'', ''BatchFeature.__getitem__'', ''decode'',
     ''import'', ''pipeline'', ''pipe'']"

text \<open>A script emits \<open>ns\<close> when every successful run of it makes exactly the calls \<open>ns\<close>.\<close>

definition emits :: "string list \<Rightarrow> ('a, ('p, 'm, 'i, 'c, 'w) process) script \<Rightarrow> bool" where
  "emits ns m = (\<forall>s a s'. m s = (Inr a, s') \<longrightarrow> map fst (trace s') = map fst (trace s) @ ns)"

text \<open>
  The global variables, and agreement of two states: the same output, trace and world, and
  the same value for each variable of \<open>V\<close>.
\<close>

datatype var = Processor | Model | Messages | Inputs | Outputs | Pipe

definition agree ::
  "var set \<Rightarrow> ('p, 'm, 'i, 'c, 'w) process \<Rightarrow> ('p, 'm, 'i, 'c, 'w) process \<Rightarrow> bool" where
  "agree V s t = (stdout s = stdout t \<and> trace s = trace t \<and> world s = world t
     \<and> (Processor \<in> V \<longrightarrow> processor s = processor t)
     \<and> (Model \<in> V \<longrightarrow> model s = model t)
     \<and> (Messages \<in> V \<longrightarrow> messages s = messages t)
     \<and> (Inputs \<in> V \<longrightarrow> inputs s = inputs t)
     \<and> (Outputs \<in> V \<longrightarrow> outputs s = outputs t)
     \<and> (Pipe \<in> V \<longrightarrow> pipe s = pipe t))"

text \<open>
  A script runs the same from states that agree on \<open>V\<close>: the same result, the same output,
  trace and world, and on success states that agree on \<open>V'\<close>.
\<close>

definition same_run ::
  "var set \<Rightarrow> var set \<Rightarrow> (unit, ('p, 'm, 'i, 'c, 'w) process) script \<Rightarrow> bool" where
  "same_run V V' m = (\<forall>s t. agree V s t \<longrightarrow>
     fst (m s) = fst (m t) \<and> agree {} (snd (m s)) (snd (m t))
     \<and> (fst (m s) = Inr () \<longrightarrow> agree V' (snd (m s)) (snd (m t))))"

subsection \<open>Libraries whose replies do not depend on the world\<close>

text \<open>
  An operation is world-independent when what it returns or raises is the same in every
  world (the world it leaves may differ). A library is deterministic when each of its
  operations is, for all arguments: its replies depend on the arguments alone.
\<close>

definition world_independent :: "('w \<Rightarrow> (exn + 'a) \<times> 'w) \<Rightarrow> bool" where
  "world_independent operation = (\<forall>w w'. fst (operation w) = fst (operation w'))"

definition library_deterministic :: "('p, 'm, 'i, 'c, 'w) transformers \<Rightarrow> bool" where
  "library_deterministic lib =
     ((\<forall>ns. world_independent (import_from lib ns))
    \<and> (\<forall>n. world_independent (AutoProcessor_from_pretrained lib n))
    \<and> (\<forall>n. world_independent (AutoModelForVision2Seq_from_pretrained lib n))
    \<and> (\<forall>p ms a b c r. world_independent (apply_chat_template lib p ms a b c r))
    \<and> (\<forall>i d. world_independent (to_device lib i d))
    \<and> (\<forall>m i cap. world_independent (generate lib m i cap))
    \<and> (\<forall>p toks. world_independent (decode lib p toks))
    \<and> (\<forall>task n. world_independent (pipeline lib task n))
    \<and> (\<forall>c ms. world_independent (pipe_call lib c ms)))"

text \<open>
  The sample library with a generation that samples: the first new token is drawn from the
  state of the world.
\<close>

definition sampling_lib :: "(string, string, token list, string, nat) transformers" where
  "sampling_lib = demo_lib\<lparr>generate :=
     (\<lambda>m i cap w. (Inr (Tensor2 (length i + 1) [i @ [if w < 4 then 3 else 7]]), Suc w))\<rparr>"

text \<open>Two states hold the same value in each variable of \<open>V\<close>.\<close>

definition agree_vars ::
  "var set \<Rightarrow> ('p, 'm, 'i, 'c, 'w) process \<Rightarrow> ('p, 'm, 'i, 'c, 'w) process \<Rightarrow> bool" where
  "agree_vars V s t =
     ((Processor \<in> V \<longrightarrow> processor s = processor t)
    \<and> (Model \<in> V \<longrightarrow> model s = model t)
    \<and> (Messages \<in> V \<longrightarrow> messages s = messages t)
    \<and> (Inputs \<in> V \<longrightarrow> inputs s = inputs t)
    \<and> (Outputs \<in> V \<longrightarrow> outputs s = outputs t)
    \<and> (Pipe \<in> V \<longrightarrow> pipe s = pipe t))"

text \<open>Two steps, from \<open>s\<close> to \<open>s'\<close> and from \<open>t\<close> to \<open>t'\<close>, print the same text and make the same calls.\<close>

definition echo ::
  "('p, 'm, 'i, 'c, 'w) process \<Rightarrow> ('p, 'm, 'i, 'c, 'w) process \<Rightarrow>
   ('p, 'm, 'i, 'c, 'w) process \<Rightarrow> ('p, 'm, 'i, 'c, 'w) process \<Rightarrow> bool" where
  "echo s s' t t' = (\<exists>out tr. stdout s' = stdout s @ out \<and> stdout t' = stdout t @ out
     \<and> trace s' = trace s @ tr \<and> trace t' = trace t @ tr)"

text \<open>
  A script behaves alike from any two states that agree on \<open>V\<close>, whatever their worlds,
  outputs and traces: the same result, the same text printed, the same calls with the same
  outcomes, and on success states that agree on \<open>V'\<close>.
\<close>

definition alike ::
  "var set \<Rightarrow> var set \<Rightarrow> ('a, ('p, 'm, 'i, 'c, 'w) process) script \<Rightarrow> bool" where
  "alike V V' m = (\<forall>s t. agree_vars V s t \<longrightarrow>
     fst (m s) = fst (m t) \<and> echo s (snd (m s)) t (snd (m t))
     \<and> (\<forall>a. fst (m s) = Inr a \<longrightarrow> agree_vars V' (snd (m s)) (snd (m t))))"

section \<open>Properties\<close>

lemmas script_defs = bindE_def external_def name_lookup_def assign_def py_print_def

lemmas line_defs = line_2_def line_4_def line_5_def line_6_def line_15_def line_23_def line_24_def
  generated_span_def line_25_def line_27_def line_28_def line_37_def
  line_38_def line_40_def line_41_def line_42_def line_51_def line_59_def line_60_def
  line_61_def line_63_def line_64_def line_73_def

lemma bindE_Inl: "m s = (Inl e, s') \<Longrightarrow> bindE m f s = (Inl e, s')"
  by (simp add: bindE_def)

lemma bindE_Inr: "m s = (Inr a, s') \<Longrightarrow> bindE m f s = f a s'"
  by (simp add: bindE_def)

lemma run_stmts_append:
  "run_stmts (xs @ ys) = bindE (run_stmts xs) (\<lambda>_. run_stmts ys)"
proof (induction xs)
  case Nil
  show ?case by (simp add: bindE_def)
next
  case (Cons c cs)
  show ?case
    by (rule ext) (simp add: Cons bindE_def split: prod.splits sum.splits)
qed

lemma fail_fast_external: "fail_fast (external n operation)"
  by (auto simp: fail_fast_def external_def quiet_def split: prod.splits sum.splits)

lemma fail_fast_name_lookup: "fail_fast (name_lookup x var)"
  by (auto simp: fail_fast_def name_lookup_def split: option.splits)

lemma fail_fast_assign: "(\<And>s. trace (upd s) = trace s) \<Longrightarrow> fail_fast (assign upd)"
  by (auto simp: fail_fast_def assign_def)

lemma fail_fast_print: "fail_fast (py_print t)"
  by (auto simp: fail_fast_def py_print_def)

lemma fail_fast_return: "fail_fast (\<lambda>s. (Inr x, s))"
  by (auto simp: fail_fast_def)

lemma fail_fast_bindE:
  assumes m: "fail_fast m" and f: "\<And>a. fail_fast (f a)"
  shows "fail_fast (bindE m f)"
  unfolding fail_fast_def
proof (intro allI impI)
  fix s r s'
  assume run: "bindE m f s = (r, s')" and q: "quiet (trace s)"
  obtain r1 s1 where ms: "m s = (r1, s1)" by (cases "m s")
  from m ms q have post1: "case r1 of Inr _ \<Rightarrow> quiet (trace s1)
        | Inl e \<Rightarrow> quiet (trace s1) \<or> (\<exists>n cs. trace s1 = cs @ [(n, Some e)] \<and> quiet cs)"
    unfolding fail_fast_def by blast
  show "case r of Inr _ \<Rightarrow> quiet (trace s')
        | Inl e \<Rightarrow> quiet (trace s') \<or> (\<exists>n cs. trace s' = cs @ [(n, Some e)] \<and> quiet cs)"
  proof (cases r1)
    case (Inl e)
    with ms run have "r = Inl e" and "s' = s1" by (simp_all add: bindE_def)
    with post1 Inl show ?thesis by simp
  next
    case (Inr a)
    with ms run have fa: "f a s1 = (r, s')" by (simp add: bindE_def)
    from post1 Inr have "quiet (trace s1)" by simp
    with f[of a] fa show ?thesis unfolding fail_fast_def by blast
  qed
qed

lemma fail_fast_run_stmts: "list_all fail_fast cs \<Longrightarrow> fail_fast (run_stmts cs)"
proof (induction cs)
  case Nil
  show ?case by (simp add: fail_fast_return)
next
  case (Cons c cs)
  then show ?case by (simp add: fail_fast_bindE)
qed

lemmas fail_fast_rules = fail_fast_bindE fail_fast_external fail_fast_name_lookup
  fail_fast_assign fail_fast_print fail_fast_return

lemma fail_fast_generated_span: "fail_fast (generated_span lib)"
  by (simp add: generated_span_def fail_fast_rules)

lemma fail_fast_first_copy:
  "fail_fast (line_2 lib)" "fail_fast (line_4 lib)" "fail_fast (line_5 lib)"
  "fail_fast line_6" "fail_fast (line_15 lib)" "fail_fast (line_23 lib)"
  "fail_fast (line_24 lib)" "fail_fast (line_25 lib)" "fail_fast (line_27 lib)"
  "fail_fast line_28" "fail_fast (line_37 lib)"
  by (simp_all add: line_2_def line_4_def line_5_def line_6_def line_15_def line_23_def
      line_24_def line_25_def line_27_def line_28_def line_37_def
      fail_fast_generated_span fail_fast_rules)

lemma fail_fast_second_copy:
  "fail_fast (line_38 lib)" "fail_fast (line_40 lib)" "fail_fast (line_41 lib)"
  "fail_fast line_42" "fail_fast (line_51 lib)" "fail_fast (line_59 lib)"
  "fail_fast (line_60 lib)" "fail_fast (line_61 lib)" "fail_fast (line_63 lib)"
  "fail_fast line_64" "fail_fast (line_73 lib)"
  by (simp_all add: line_38_def line_40_def line_41_def line_42_def line_51_def line_59_def
      line_60_def line_61_def line_63_def line_64_def line_73_def fail_fast_rules)

lemma fail_fast_module: "fail_fast (run_stmts (module_stmts lib))"
  by (rule fail_fast_run_stmts)
     (simp add: module_stmts_def fail_fast_first_copy fail_fast_second_copy)

subsection \<open>C6: failures of the library are fatal\<close>

text \<open>
  Claim C6. Whenever a call into the library raises during a run of the file, the run ends
  with exactly that exception: the raising call is the last call the process makes, every
  call before it returned, and the process exits with status 1 reporting the exception the
  library raised, unchanged. Nothing in the module catches, retries or recovers.
\<close>

theorem failure_propagates_unhandled:
  assumes raised: "(n, Some e) \<in> set (trace (snd (run_stmts (module_stmts lib) (initial w))))"
  shows "fst (run_stmts (module_stmts lib) (initial w)) = Inl e
       \<and> (\<exists>cs. trace (snd (run_stmts (module_stmts lib) (initial w))) = cs @ [(n, Some e)]
              \<and> list_all (\<lambda>c. snd c = None) cs)
       \<and> python_main lib w = (1, stdout (snd (run_stmts (module_stmts lib) (initial w))), Some e)"
proof -
  obtain r s' where run: "run_stmts (module_stmts lib) (initial w) = (r, s')"
    by (cases "run_stmts (module_stmts lib) (initial w)")
  have q0: "quiet (trace (initial w :: ('a, 'b, 'c, 'd, 'e) process))"
    by (simp add: initial_def quiet_def)
  from fail_fast_module[of lib] run q0
  have post: "case r of Inr _ \<Rightarrow> quiet (trace s')
        | Inl e \<Rightarrow> quiet (trace s') \<or> (\<exists>n cs. trace s' = cs @ [(n, Some e)] \<and> quiet cs)"
    unfolding fail_fast_def by blast
  from raised run have mem: "(n, Some e) \<in> set (trace s')" by simp
  then have noisy: "\<not> quiet (trace s')"
    by (force simp: quiet_def list_all_iff)
  from post noisy obtain e0 n0 cs where r: "r = Inl e0"
      and tr: "trace s' = cs @ [(n0, Some e0)]" and qcs: "quiet cs"
    by (cases r) auto
  from mem tr qcs have "n = n0 \<and> e = e0"
    by (auto simp: quiet_def list_all_iff)
  with r tr qcs run show ?thesis
    by (simp add: python_main_def quiet_def)
qed

text \<open>A run in which generation fails for lack of memory: the process dies with that error.\<close>

theorem failure_propagates_unhandled_witness:
  "(''generate'', Some (Exn ''RuntimeError'' ''CUDA out of memory''))
      \<in> set (trace (snd (run_stmts (module_stmts failing_lib) (initial 0))))
   \<and> python_main failing_lib 0 = (1, [], Some (Exn ''RuntimeError'' ''CUDA out of memory''))"
proof -
  have run: "run_stmts (module_stmts failing_lib) (initial 0) =
     (Inl (Exn ''RuntimeError'' ''CUDA out of memory''),
      \<lparr>processor = Some ''Qwen/Qwen3-VL-8B-Instruct'', model = Some ''Qwen/Qwen3-VL-8B-Instruct'',
       messages = Some messages_6, inputs = Some [11, 12, 13], outputs = None, pipe = None,
       stdout = [],
       trace = [(''import'', None), (''AutoProcessor.from_pretrained'', None),
                (''AutoModelForVision2Seq.from_pretrained'', None),
                (''apply_chat_template'', None), (''to'', None),
                (''generate'', Some (Exn ''RuntimeError'' ''CUDA out of memory''))],
       world = 2\<rparr>)"
    by (simp add: module_stmts_def line_defs script_defs failing_lib_def demo_lib_def initial_def)
  have mem: "(''generate'', Some (Exn ''RuntimeError'' ''CUDA out of memory''))
      \<in> set (trace (snd (run_stmts (module_stmts failing_lib) (initial 0))))"
    by (simp add: run)
  from failure_propagates_unhandled[OF mem] mem show ?thesis
    by (simp add: run)
qed

lemma slice_from_nat: "slice_from xs (int k) = drop k xs"
  by (simp add: slice_from_def Let_def min_def)

lemma generated_span_eval:
  assumes "outputs s = Some out" and "rows out = row # rest"
    and "inputs s = Some i" and "getitem lib i ''input_ids'' = Inr ids"
  shows "generated_span lib s =
     (Inr (drop (ncols ids) row),
      s\<lparr>trace := trace s @ [(''Tensor.__getitem__'', None), (''BatchFeature.__getitem__'', None)]\<rparr>)"
  using assms
  by (simp add: generated_span_def bindE_def name_lookup_def external_def tensor_getitem0_def
      shape_last_def slice_from_nat)

lemma line_24_eval:
  assumes "outputs s = Some out" and "rows out = row # rest"
    and "inputs s = Some i" and "getitem lib i ''input_ids'' = Inr ids"
    and "processor s = Some p"
    and "decode lib p (drop (ncols ids) row) (world s) = (Inr decoded, w')"
  shows "line_24 lib s = (Inr (),
      s\<lparr>stdout := stdout s @ decoded @ [CHR 0x0A],
        trace := trace s @ [(''Tensor.__getitem__'', None), (''BatchFeature.__getitem__'', None),
                            (''decode'', None)],
        world := w'\<rparr>)"
  using assms
  by (simp add: line_24_def bindE_def name_lookup_def generated_span_eval[OF assms(1-4)]
      external_def py_print_def)

subsection \<open>C1: the decoded text leaves the prompt out\<close>

text \<open>
  Claim C1. On line 24 the token sequence handed to \<open>decode\<close> is \<open>outputs[0]\<close> without its
  first \<open>inputs["input_ids"].shape[-1]\<close> tokens: it holds exactly the positions from the input
  length onwards, so when the generated row is the prompt followed by new tokens the decoded
  sequence is the new tokens alone, and the printed text is the decoding of that suffix.
\<close>

theorem decoded_span_drops_input_length:
  assumes "outputs s = Some out" and "rows out = row # rest"
    and "inputs s = Some i" and "getitem lib i ''input_ids'' = Inr ids"
  shows "fst (generated_span lib s) = Inr (drop (ncols ids) row)
       \<and> drop (ncols ids) row = map (\<lambda>j. row ! j) [ncols ids ..< length row]
       \<and> (\<forall>prompt new. row = prompt @ new \<and> length prompt = ncols ids \<longrightarrow>
            fst (generated_span lib s) = Inr new)
       \<and> (\<forall>p decoded w'. processor s = Some p \<and>
            decode lib p (drop (ncols ids) row) (world s) = (Inr decoded, w') \<longrightarrow>
            stdout (snd (line_24 lib s)) = stdout s @ decoded @ [CHR 0x0A])"
proof -
  have span: "fst (generated_span lib s) = Inr (drop (ncols ids) row)"
    by (simp add: generated_span_eval[OF assms])
  have positions: "drop (ncols ids) row = map (\<lambda>j. row ! j) [ncols ids ..< length row]"
    by (simp add: list_eq_iff_nth_eq)
  have suffix: "\<forall>prompt new. row = prompt @ new \<and> length prompt = ncols ids \<longrightarrow>
            fst (generated_span lib s) = Inr new"
  proof (intro allI impI)
    fix prompt new
    assume "row = prompt @ new \<and> length prompt = ncols ids"
    then have "drop (ncols ids) row = new" by auto
    then show "fst (generated_span lib s) = Inr new"
      by (simp add: span)
  qed
  have printed: "\<forall>p decoded w'. processor s = Some p \<and>
            decode lib p (drop (ncols ids) row) (world s) = (Inr decoded, w') \<longrightarrow>
            stdout (snd (line_24 lib s)) = stdout s @ decoded @ [CHR 0x0A]"
  proof (intro allI impI)
    fix p decoded w'
    assume h: "processor s = Some p \<and>
            decode lib p (drop (ncols ids) row) (world s) = (Inr decoded, w')"
    from h have a: "processor s = Some p" by (rule conjunct1)
    from h have b: "decode lib p (drop (ncols ids) row) (world s) = (Inr decoded, w')"
      by (rule conjunct2)
    show "stdout (snd (line_24 lib s)) = stdout s @ decoded @ [CHR 0x0A]"
      by (simp add: line_24_eval[OF assms a b])
  qed
  show ?thesis
    by (rule conjI[OF span conjI[OF positions conjI[OF suffix printed]]])
qed

text \<open>A prompt of three tokens followed by two generated ones: only the two are decoded.\<close>

theorem decoded_span_drops_input_length_witness:
  "outputs demo_state = Some (Tensor2 5 [[11, 12, 13, 3, 7]])
   \<and> inputs demo_state = Some [11, 12, 13]
   \<and> getitem demo_lib [11, 12, 13] ''input_ids'' = Inr (Tensor2 3 [[11, 12, 13]])
   \<and> fst (generated_span demo_lib demo_state) = Inr [3, 7]
   \<and> stdout (snd (line_24 demo_lib demo_state)) = ''ox'' @ [CHR 0x0A]"
proof -
  have a: "outputs demo_state = Some (Tensor2 5 [[11, 12, 13, 3, 7]])"
    by (simp add: demo_state_def)
  have b: "rows (Tensor2 5 [[11, 12, 13, 3, 7]]) = [11, 12, 13, 3, 7] # []" by simp
  have c: "inputs demo_state = Some [11, 12, 13]" by (simp add: demo_state_def)
  have d: "getitem demo_lib [11, 12, 13] ''input_ids'' = Inr (Tensor2 3 [[11, 12, 13]])"
    by (simp add: demo_lib_def)
  have p: "processor demo_state = Some ''Qwen/Qwen3-VL-8B-Instruct''
      \<and> decode demo_lib ''Qwen/Qwen3-VL-8B-Instruct''
           (drop (ncols (Tensor2 3 [[11, 12, 13]])) [11, 12, 13, 3, 7]) (world demo_state)
         = (Inr ''ox'', 3)"
    by (simp add: demo_state_def demo_lib_def)
  note inst = decoded_span_drops_input_length[OF a b c d]
  from inst have span: "fst (generated_span demo_lib demo_state) = Inr [3, 7]" by simp
  from inst p have out: "stdout (snd (line_24 demo_lib demo_state)) = stdout demo_state @ ''ox'' @ [CHR 0x0A]"
    by blast
  from a c d span out show ?thesis by (simp add: demo_state_def)
qed

lemma slice_from_length: "length (slice_from xs k) \<le> length xs"
  by (simp add: slice_from_def Let_def)

lemma slice_from_suffix: "\<exists>pre. xs = pre @ slice_from xs k"
proof -
  have "xs = take (nat (if k < 0 then max (int (length xs) + k) 0 else min k (int (length xs)))) xs
           @ slice_from xs k"
    by (simp add: slice_from_def Let_def)
  then show ?thesis by blast
qed

lemma line_23_success:
  assumes "line_23 lib s = (Inr u, s1)"
  shows "\<exists>m i out w1. model s = Some m \<and> inputs s = Some i
       \<and> generate lib m i 40 (world s) = (Inr out, w1)
       \<and> s1 = s\<lparr>outputs := Some out, trace := trace s @ [(''generate'', None)], world := w1\<rparr>"
  using assms
  by (auto simp: line_23_def bindE_def name_lookup_def external_def assign_def
      split: option.splits prod.splits sum.splits)

lemma generated_span_success:
  assumes "generated_span lib s = (Inr toks, s')"
  shows "\<exists>out row rest i ids. outputs s = Some out \<and> rows out = row # rest
       \<and> inputs s = Some i \<and> getitem lib i ''input_ids'' = Inr ids
       \<and> toks = drop (ncols ids) row"
  using assms
  by (auto simp: generated_span_def bindE_def name_lookup_def external_def tensor_getitem0_def
      shape_last_def slice_from_nat
      split: option.splits prod.splits sum.splits list.splits)

subsection \<open>C3: at most 40 new tokens\<close>

text \<open>
  Claim C3. Line 23 asks the library for at most 40 new tokens. For a library that honours
  the bound it is given, every run of lines 23 and 24 that reaches the decoder hands it at
  most 40 tokens: the part of the output row beyond the input length is capped at 40.
\<close>

theorem new_tokens_capped_at_40:
  assumes contract: "honours_max_new_tokens lib"
    and run: "bindE (line_23 lib) (\<lambda>_. generated_span lib) s = (Inr toks, s')"
  shows "length toks \<le> 40"
proof -
  obtain r1 s1 where l23: "line_23 lib s = (r1, s1)" by (cases "line_23 lib s")
  from run l23 obtain u where r1: "r1 = Inr u" and span: "generated_span lib s1 = (Inr toks, s')"
    by (cases r1) (simp_all add: bindE_def)
  from line_23_success[OF l23[unfolded r1]] obtain m i out w1 where
      i: "inputs s = Some i" and gen: "generate lib m i 40 (world s) = (Inr out, w1)"
      and s1: "s1 = s\<lparr>outputs := Some out, trace := trace s @ [(''generate'', None)], world := w1\<rparr>"
    by blast
  from generated_span_success[OF span] obtain out' row rest i' ids where
      o': "outputs s1 = Some out'" and rows: "rows out' = row # rest"
      and i': "inputs s1 = Some i'" and ids: "getitem lib i' ''input_ids'' = Inr ids"
      and toks: "toks = drop (ncols ids) row"
    by blast
  from o' s1 have "out' = out" by simp
  moreover from i' s1 i have "i' = i" by simp
  ultimately have rows': "rows out = row # rest" and ids': "getitem lib i ''input_ids'' = Inr ids"
    using rows ids by simp_all
  from contract gen ids' have "list_all (\<lambda>row. int (length row) \<le> int (ncols ids) + 40) (rows out)"
    unfolding honours_max_new_tokens_def by blast
  with rows' have "int (length row) \<le> int (ncols ids) + 40" by simp
  with toks show ?thesis by simp
qed

lemma demo_lib_honours: "honours_max_new_tokens demo_lib"
  by (auto simp: honours_max_new_tokens_def demo_lib_def split: if_splits)

text \<open>The sample library stops after two tokens, well under the bound.\<close>

theorem new_tokens_capped_at_40_witness:
  "honours_max_new_tokens demo_lib
   \<and> fst (bindE (line_23 demo_lib) (\<lambda>_. generated_span demo_lib) demo_state) = Inr [3, 7]
   \<and> length [3, 7 :: token] \<le> 40"
proof -
  have run: "bindE (line_23 demo_lib) (\<lambda>_. generated_span demo_lib) demo_state =
     (Inr [3, 7], demo_state\<lparr>outputs := Some (Tensor2 5 [[11, 12, 13, 3, 7]]),
        trace := [(''generate'', None), (''Tensor.__getitem__'', None),
                  (''BatchFeature.__getitem__'', None)],
        world := 4\<rparr>)"
    by (simp add: line_23_def generated_span_def bindE_def name_lookup_def external_def
        assign_def demo_lib_def demo_state_def tensor_getitem0_def shape_last_def slice_from_def)
  from new_tokens_capped_at_40[OF demo_lib_honours run] demo_lib_honours run
  show ?thesis by simp
qed

subsection \<open>C9: the suffix slice never leaves the row\<close>

text \<open>
  Claim C9. The slice \<open>outputs[0][inputs["input_ids"].shape[-1]:]\<close> never raises: whatever
  the bound, it is a suffix of the row. When the row is at least as long as the input, the
  slice holds the \<open>length row - input length\<close> tokens after the input. When generation added
  no token the slice is empty, and if the library decodes the empty sequence to the empty
  string, line 24 prints the empty string (a bare newline).
\<close>

theorem suffix_slice_total_in_bounds:
  assumes "outputs s = Some out" and "rows out = row # rest"
    and "inputs s = Some i" and "getitem lib i ''input_ids'' = Inr ids"
    and bound: "ncols ids \<le> length row"
  shows "(\<forall>k. \<exists>pre. row = pre @ slice_from row k)
       \<and> (\<exists>toks. fst (generated_span lib s) = Inr toks
              \<and> length toks = length row - ncols ids
              \<and> row = take (ncols ids) row @ toks)
       \<and> (length row = ncols ids \<longrightarrow>
            fst (generated_span lib s) = Inr []
            \<and> (\<forall>p w'. processor s = Some p \<and> decode lib p [] (world s) = (Inr [], w') \<longrightarrow>
                 fst (line_24 lib s) = Inr ()
                 \<and> stdout (snd (line_24 lib s)) = stdout s @ [CHR 0x0A]))"
proof -
  have total: "\<forall>k. \<exists>pre. row = pre @ slice_from row k"
    by (simp add: slice_from_suffix)
  have span: "fst (generated_span lib s) = Inr (drop (ncols ids) row)"
    by (simp add: generated_span_eval[OF assms(1-4)])
  have inb: "\<exists>toks. fst (generated_span lib s) = Inr toks
              \<and> length toks = length row - ncols ids
              \<and> row = take (ncols ids) row @ toks"
    using span by simp
  have zero: "length row = ncols ids \<longrightarrow>
            fst (generated_span lib s) = Inr []
            \<and> (\<forall>p w'. processor s = Some p \<and> decode lib p [] (world s) = (Inr [], w') \<longrightarrow>
                 fst (line_24 lib s) = Inr ()
                 \<and> stdout (snd (line_24 lib s)) = stdout s @ [CHR 0x0A])"
  proof (intro impI conjI allI)
    assume len: "length row = ncols ids"
    then show "fst (generated_span lib s) = Inr []" using span by simp
  next
    fix p w'
    assume len: "length row = ncols ids"
    assume h: "processor s = Some p \<and> decode lib p [] (world s) = (Inr [], w')"
    from h have a: "processor s = Some p" by (rule conjunct1)
    from h len have b: "decode lib p (drop (ncols ids) row) (world s) = (Inr [], w')"
      by simp
    show "fst (line_24 lib s) = Inr ()"
      by (simp add: line_24_eval[OF assms(1-4) a b])
    show "stdout (snd (line_24 lib s)) = stdout s @ [CHR 0x0A]"
      by (simp add: line_24_eval[OF assms(1-4) a b])
  qed
  show ?thesis
    by (rule conjI[OF total conjI[OF inb zero]])
qed

text \<open>Generation that adds nothing to a prompt of three tokens: a bare newline is printed.\<close>

theorem suffix_slice_total_in_bounds_witness:
  "outputs silent_state = Some (Tensor2 3 [[11, 12, 13]])
   \<and> inputs silent_state = Some [11, 12, 13]
   \<and> getitem demo_lib [11, 12, 13] ''input_ids'' = Inr (Tensor2 3 [[11, 12, 13]])
   \<and> ncols (Tensor2 3 [[11, 12, 13]]) \<le> length [11, 12, 13 :: token]
   \<and> fst (generated_span demo_lib silent_state) = Inr []
   \<and> fst (line_24 demo_lib silent_state) = Inr ()
   \<and> stdout (snd (line_24 demo_lib silent_state)) = [CHR 0x0A]"
proof -
  have a: "outputs silent_state = Some (Tensor2 3 [[11, 12, 13]])"
    by (simp add: silent_state_def)
  have b: "rows (Tensor2 3 [[11, 12, 13]]) = [11, 12, 13] # []" by simp
  have c: "inputs silent_state = Some [11, 12, 13]"
    by (simp add: silent_state_def demo_state_def)
  have d: "getitem demo_lib [11, 12, 13] ''input_ids'' = Inr (Tensor2 3 [[11, 12, 13]])"
    by (simp add: demo_lib_def)
  have e: "ncols (Tensor2 3 [[11, 12, 13]]) \<le> length [11, 12, 13 :: token]" by simp
  have len: "length [11, 12, 13 :: token] = ncols (Tensor2 3 [[11, 12, 13]])" by simp
  have p: "processor silent_state = Some ''Qwen/Qwen3-VL-8B-Instruct''
      \<and> decode demo_lib ''Qwen/Qwen3-VL-8B-Instruct'' [] (world silent_state) = (Inr [], 3)"
    by (simp add: silent_state_def demo_state_def demo_lib_def)
  note inst = suffix_slice_total_in_bounds[OF a b c d e]
  from inst len have span: "fst (generated_span demo_lib silent_state) = Inr []" by blast
  from inst len p have pr: "fst (line_24 demo_lib silent_state) = Inr ()
      \<and> stdout (snd (line_24 demo_lib silent_state)) = stdout silent_state @ [CHR 0x0A]"
    by blast
  from a c d e span pr show ?thesis by (simp add: silent_state_def demo_state_def)
qed

subsection \<open>C4: the message lists\<close>

text \<open>
  Claim C4. Each of the four message lists the module builds (lines 6, 28, 42 and 64) is one
  turn of role \<open>user\<close> whose content is an image part carrying the URL of the candy picture
  followed by a text part carrying the question, and that list is what the statement binds
  to \<open>messages\<close>.
\<close>

theorem message_lists_single_user_turn:
  "parse_messages messages_6 = Some [\<lparr>role = ''user'', content =
       [Image ''https://huggingface.co/datasets/huggingface/documentation-images/resolve/main/p-blog/candy.JPG'',
        Text ''What animal is on the candy?'']\<rparr>]
   \<and> parse_messages messages_28 = parse_messages messages_6
   \<and> parse_messages messages_42 = parse_messages messages_6
   \<and> parse_messages messages_64 = parse_messages messages_6
   \<and> messages (snd (line_6 s)) = Some messages_6
   \<and> messages (snd (line_28 s)) = Some messages_28
   \<and> messages (snd (line_42 s)) = Some messages_42
   \<and> messages (snd (line_64 s)) = Some messages_64"
proof -
  have p6: "parse_messages messages_6 = Some [\<lparr>role = ''user'', content =
       [Image ''https://huggingface.co/datasets/huggingface/documentation-images/resolve/main/p-blog/candy.JPG'',
        Text ''What animal is on the candy?'']\<rparr>]"
    by (simp add: parse_messages_def parse_message_def parse_part_def messages_6_def)
  have same: "messages_28 = messages_6" "messages_42 = messages_6" "messages_64 = messages_6"
    by (simp_all add: messages_6_def messages_28_def messages_42_def messages_64_def)
  have bound: "messages (snd (line_6 s)) = Some messages_6"
      "messages (snd (line_28 s)) = Some messages_28"
      "messages (snd (line_42 s)) = Some messages_42"
      "messages (snd (line_64 s)) = Some messages_64"
    by (simp_all add: line_6_def line_28_def line_42_def line_64_def assign_def)
  from p6 same bound show ?thesis by simp
qed

subsection \<open>C2: the answer of the pipeline is dropped\<close>

lemma line_37_stdout: "stdout (snd (line_37 lib s)) = stdout s"
  by (simp add: line_37_def bindE_def name_lookup_def external_def
      split: option.splits prod.splits sum.splits)

lemma line_73_stdout: "stdout (snd (line_73 lib s)) = stdout s"
  by (simp add: line_73_def bindE_def name_lookup_def external_def
      split: option.splits prod.splits sum.splits)

lemma line_25_stdout: "stdout (snd (line_25 lib s)) = stdout s"
  by (simp add: line_25_def external_def split: prod.splits sum.splits)

lemma line_27_stdout: "stdout (snd (line_27 lib s)) = stdout s"
  by (simp add: line_27_def bindE_def external_def assign_def split: prod.splits sum.splits)

lemma line_28_stdout: "stdout (snd (line_28 s)) = stdout s"
  by (simp add: line_28_def assign_def)

lemma bindE_stdout:
  assumes "\<And>s. stdout (snd (m s)) = stdout s" and "\<And>a s. stdout (snd (f a s)) = stdout s"
  shows "stdout (snd (bindE m f s)) = stdout s"
proof (cases "m s")
  case (Pair r s1)
  from assms(1)[of s] Pair have s1: "stdout s1 = stdout s" by simp
  show ?thesis
  proof (cases r)
    case (Inl e)
    with Pair s1 show ?thesis by (simp add: bindE_def)
  next
    case (Inr a)
    with Pair s1 assms(2)[of a s1] show ?thesis by (simp add: bindE_def)
  qed
qed

lemma pipeline_workflow_stdout: "stdout (snd (run_stmts (pipeline_workflow lib) s)) = stdout s"
  unfolding pipeline_workflow_def run_stmts.simps
  by (intro bindE_stdout line_25_stdout line_27_stdout line_28_stdout line_37_stdout) simp

text \<open>
  Claim C2, as amended. Run as a file, the module evaluates \<open>pipe(text=messages)\<close> and drops
  the value: when the call returns, the state after line 37 is the state before it with the
  call recorded and the world the library left, whatever the answer was, and neither line 37,
  line 73 nor the pipeline workflow as a whole writes anything to standard output.
\<close>

theorem pipeline_answer_discarded:
  "stdout (snd (line_37 lib s)) = stdout s
   \<and> stdout (snd (line_73 lib s)) = stdout s
   \<and> stdout (snd (run_stmts (pipeline_workflow lib) s)) = stdout s
   \<and> (\<forall>c ms answer w'. pipe s = Some c \<and> messages s = Some ms
          \<and> pipe_call lib c ms (world s) = (Inr answer, w') \<longrightarrow>
        line_37 lib s = (Inr (), s\<lparr>trace := trace s @ [(''pipe'', None)], world := w'\<rparr>))"
proof -
  have dropped: "\<forall>c ms answer w'. pipe s = Some c \<and> messages s = Some ms
          \<and> pipe_call lib c ms (world s) = (Inr answer, w') \<longrightarrow>
        line_37 lib s = (Inr (), s\<lparr>trace := trace s @ [(''pipe'', None)], world := w'\<rparr>)"
    by (simp add: line_37_def bindE_def name_lookup_def external_def)
  show ?thesis
    by (rule conjI[OF line_37_stdout conjI[OF line_73_stdout
          conjI[OF pipeline_workflow_stdout dropped]]])
qed

text \<open>The sample library answers \<open>cat\<close>; after the call the state holds no trace of it.\<close>

theorem pipeline_answer_discarded_witness:
  "pipe_call demo_lib ''Qwen/Qwen3-VL-8B-Instruct'' messages_28 3
     = (Inr (PList [PDict [(''generated_text'', PStr ''cat'')]]), 3)
   \<and> line_37 demo_lib (demo_state\<lparr>pipe := Some ''Qwen/Qwen3-VL-8B-Instruct'', messages := Some messages_28\<rparr>)
     = (Inr (), demo_state\<lparr>pipe := Some ''Qwen/Qwen3-VL-8B-Instruct'', messages := Some messages_28,
                           trace := [(''pipe'', None)]\<rparr>)"
proof -
  have call: "pipe_call demo_lib ''Qwen/Qwen3-VL-8B-Instruct'' messages_28 3
     = (Inr (PList [PDict [(''generated_text'', PStr ''cat'')]]), 3)"
    by (simp add: demo_lib_def)
  have pre: "pipe (demo_state\<lparr>pipe := Some ''Qwen/Qwen3-VL-8B-Instruct'', messages := Some messages_28\<rparr>)
        = Some ''Qwen/Qwen3-VL-8B-Instruct''
      \<and> messages (demo_state\<lparr>pipe := Some ''Qwen/Qwen3-VL-8B-Instruct'', messages := Some messages_28\<rparr>)
        = Some messages_28
      \<and> world (demo_state\<lparr>pipe := Some ''Qwen/Qwen3-VL-8B-Instruct'', messages := Some messages_28\<rparr>) = 3"
    by (simp add: demo_state_def)
  note inst = pipeline_answer_discarded[of demo_lib
      "demo_state\<lparr>pipe := Some ''Qwen/Qwen3-VL-8B-Instruct'', messages := Some messages_28\<rparr>"]
  from inst pre call have "line_37 demo_lib (demo_state\<lparr>pipe := Some ''Qwen/Qwen3-VL-8B-Instruct'', messages := Some messages_28\<rparr>)
     = (Inr (), demo_state\<lparr>pipe := Some ''Qwen/Qwen3-VL-8B-Instruct'', messages := Some messages_28\<rparr>
          \<lparr>trace := trace (demo_state\<lparr>pipe := Some ''Qwen/Qwen3-VL-8B-Instruct'', messages := Some messages_28\<rparr>) @ [(''pipe'', None)],
           world := 3\<rparr>)"
    by simp
  with call show ?thesis by (simp add: demo_state_def)
qed

text \<open>
  Claim C2 as stated fails: a complete run of the file under the sample library, whose
  pipeline answers \<open>cat\<close>, exits with status 0 having written only the two texts printed on
  lines 24 and 60; the pipeline workflow alone, run from the initial state, succeeds and
  leaves standard output empty.
\<close>

theorem pipeline_answer_displayed_counterexample:
  "pipe_call demo_lib ''Qwen/Qwen3-VL-8B-Instruct'' messages_28 1
     = (Inr (PList [PDict [(''generated_text'', PStr ''cat'')]]), 1)
   \<and> fst (run_stmts (pipeline_workflow demo_lib) (initial 0)) = Inr ()
   \<and> map fst (trace (snd (run_stmts (pipeline_workflow demo_lib) (initial 0))))
       = [''import'', ''pipeline'', ''pipe'']
   \<and> stdout (snd (run_stmts (pipeline_workflow demo_lib) (initial 0))) = []
   \<and> python_main demo_lib 0 = (0, ''ox'' @ [CHR 0x0A] @ ''ox'' @ [CHR 0x0A], None)"
  by (simp add: python_main_def module_stmts_def pipeline_workflow_def line_defs script_defs
      demo_lib_def initial_def tensor_getitem0_def slice_from_def shape_last_def)

lemma second_copy_same:
  "line_38 lib = line_2 lib" "line_40 lib = line_4 lib" "line_41 lib = line_5 lib"
  "line_42 = line_6" "line_51 lib = line_15 lib" "line_59 lib = line_23 lib"
  "line_60 lib = line_24 lib" "line_61 lib = line_25 lib" "line_63 lib = line_27 lib"
  "line_64 = line_28" "line_73 lib = line_37 lib"
  by (simp_all add: line_defs messages_6_def messages_28_def messages_42_def messages_64_def)

lemma module_two_rounds: "module_stmts lib = one_round lib @ one_round lib"
  by (simp add: module_stmts_def one_round_def direct_api_workflow_def pipeline_workflow_def
      second_copy_same)

lemma emits_Cons:
  assumes c: "emits ns c" and cs: "emits ns' (run_stmts cs)"
  shows "emits (ns @ ns') (run_stmts (c # cs))"
  unfolding emits_def
proof (intro allI impI)
  fix s a s'
  assume run: "run_stmts (c # cs) s = (Inr a, s')"
  obtain r1 s1 where c1: "c s = (r1, s1)" by (cases "c s")
  from run c1 obtain u where r1: "r1 = Inr u" and rest: "run_stmts cs s1 = (Inr a, s')"
    by (cases r1) (simp_all add: bindE_def)
  from c c1 r1 have "map fst (trace s1) = map fst (trace s) @ ns"
    unfolding emits_def by blast
  moreover from cs rest have "map fst (trace s') = map fst (trace s1) @ ns'"
    unfolding emits_def by blast
  ultimately show "map fst (trace s') = map fst (trace s) @ ns @ ns'" by simp
qed

lemma emits_Nil: "emits [] (run_stmts [])"
  by (simp add: emits_def)

lemma emits_lines:
  "emits [''import''] (line_2 lib)"
  "emits [''AutoProcessor.from_pretrained''] (line_4 lib)"
  "emits [''AutoModelForVision2Seq.from_pretrained''] (line_5 lib)"
  "emits [] line_6"
  "emits [''apply_chat_template'', ''to''] (line_15 lib)"
  "emits [''generate''] (line_23 lib)"
  "emits [''Tensor.__getitem__'', ''BatchFeature.__getitem__'', ''decode''] (line_24 lib)"
  "emits [''import''] (line_25 lib)"
  "emits [''pipeline''] (line_27 lib)"
  "emits [] line_28"
  "emits [''pipe''] (line_37 lib)"
  by (auto simp: emits_def line_defs script_defs split: option.splits prod.splits sum.splits)

lemma emits_one_round: "emits round_calls (run_stmts (one_round lib))"
proof -
  have "emits ([''import''] @ [''AutoProcessor.from_pretrained'']
      @ [''AutoModelForVision2Seq.from_pretrained''] @ [] @ [''apply_chat_template'', ''to'']
      @ [''generate''] @ [''Tensor.__getitem__'', ''BatchFeature.__getitem__'', ''decode'']
      @ [''import''] @ [''pipeline''] @ [] @ [''pipe''] @ [])
    (run_stmts [line_2 lib, line_4 lib, line_5 lib, line_6, line_15 lib, line_23 lib,
      line_24 lib, line_25 lib, line_27 lib, line_28, line_37 lib])"
    by (intro emits_Cons emits_lines emits_Nil)
  then show ?thesis
    by (simp add: one_round_def direct_api_workflow_def pipeline_workflow_def round_calls_def)
qed

lemma same_run_Cons:
  assumes c: "same_run V V' c" and cs: "same_run V' V'' (run_stmts cs)"
  shows "same_run V V'' (run_stmts (c # cs))"
  unfolding same_run_def
proof (intro allI impI)
  fix s t :: "('a, 'b, 'c, 'd, 'e) process"
  assume st: "agree V s t"
  obtain r1 s1 where cs1: "c s = (r1, s1)" by (cases "c s")
  obtain r2 t1 where ct1: "c t = (r2, t1)" by (cases "c t")
  from c st cs1 ct1 have r: "r2 = r1" and obs: "agree {} s1 t1"
      and ok: "r1 = Inr () \<longrightarrow> agree V' s1 t1"
    unfolding same_run_def by force+
  show "fst (run_stmts (c # cs) s) = fst (run_stmts (c # cs) t)
      \<and> agree {} (snd (run_stmts (c # cs) s)) (snd (run_stmts (c # cs) t))
      \<and> (fst (run_stmts (c # cs) s) = Inr () \<longrightarrow>
           agree V'' (snd (run_stmts (c # cs) s)) (snd (run_stmts (c # cs) t)))"
  proof (cases r1)
    case (Inl e)
    with cs1 ct1 r obs show ?thesis by (simp add: bindE_def)
  next
    case (Inr u)
    with ok have "agree V' s1 t1" by simp
    with cs have "fst (run_stmts cs s1) = fst (run_stmts cs t1)
      \<and> agree {} (snd (run_stmts cs s1)) (snd (run_stmts cs t1))
      \<and> (fst (run_stmts cs s1) = Inr () \<longrightarrow>
           agree V'' (snd (run_stmts cs s1)) (snd (run_stmts cs t1)))"
      unfolding same_run_def by blast
    with cs1 ct1 r Inr show ?thesis by (simp add: bindE_def)
  qed
qed

lemma same_run_Nil: "same_run V V (run_stmts [])"
  by (simp add: same_run_def agree_def)

lemma same_run_lines:
  "same_run {} {} (line_2 lib)"
  "same_run {} {Processor} (line_4 lib)"
  "same_run {Processor} {Processor, Model} (line_5 lib)"
  "same_run {Processor, Model} {Processor, Model, Messages} line_6"
  "same_run {Processor, Model, Messages} {Processor, Model, Messages, Inputs} (line_15 lib)"
  "same_run {Processor, Model, Messages, Inputs}
     {Processor, Model, Messages, Inputs, Outputs} (line_23 lib)"
  "same_run {Processor, Model, Messages, Inputs, Outputs}
     {Processor, Model, Messages, Inputs, Outputs} (line_24 lib)"
  "same_run {Processor, Model, Messages, Inputs, Outputs}
     {Processor, Model, Messages, Inputs, Outputs} (line_25 lib)"
  "same_run {Processor, Model, Messages, Inputs, Outputs}
     {Processor, Model, Messages, Inputs, Outputs, Pipe} (line_27 lib)"
  "same_run {Processor, Model, Messages, Inputs, Outputs, Pipe}
     {Processor, Model, Messages, Inputs, Outputs, Pipe} line_28"
  "same_run {Processor, Model, Messages, Inputs, Outputs, Pipe}
     {Processor, Model, Messages, Inputs, Outputs, Pipe} (line_37 lib)"
  by (auto simp: same_run_def agree_def line_defs script_defs
      split: option.splits prod.splits sum.splits)

lemma same_run_one_round:
  "same_run {} {Processor, Model, Messages, Inputs, Outputs, Pipe} (run_stmts (one_round lib))"
  unfolding one_round_def direct_api_workflow_def pipeline_workflow_def append.simps
  by ((rule same_run_Cons, rule same_run_lines)+, rule same_run_Nil)

lemma agree_all_eq:
  fixes s t :: "('p, 'm, 'i, 'c, 'w) process"
  assumes "agree {Processor, Model, Messages, Inputs, Outputs, Pipe} s t"
  shows "s = t"
  using assms by (intro process.equality) (simp_all add: agree_def)

lemma run_module_two_rounds:
  "run_stmts (module_stmts lib) = bindE (run_stmts (one_round lib)) (\<lambda>_. run_stmts (one_round lib))"
  by (simp only: module_two_rounds run_stmts_append)

lemma echo_refl: "echo s s t t"
  by (simp add: echo_def)

lemma echo_trans:
  assumes "echo s s1 t t1" and "echo s1 s2 t1 t2"
  shows "echo s s2 t t2"
proof -
  from assms(1) obtain out tr where a: "stdout s1 = stdout s @ out" "stdout t1 = stdout t @ out"
      "trace s1 = trace s @ tr" "trace t1 = trace t @ tr"
    unfolding echo_def by blast
  from assms(2) obtain out' tr' where b: "stdout s2 = stdout s1 @ out'" "stdout t2 = stdout t1 @ out'"
      "trace s2 = trace s1 @ tr'" "trace t2 = trace t1 @ tr'"
    unfolding echo_def by blast
  have "stdout s2 = stdout s @ (out @ out') \<and> stdout t2 = stdout t @ (out @ out')
      \<and> trace s2 = trace s @ (tr @ tr') \<and> trace t2 = trace t @ (tr @ tr')"
    using a b by simp
  then show ?thesis unfolding echo_def by blast
qed

lemma alike_bindE:
  fixes m :: "('a, ('p, 'm, 'i, 'c, 'w) process) script"
    and f :: "'a \<Rightarrow> ('b, ('p, 'm, 'i, 'c, 'w) process) script"
  assumes m: "alike V V1 m" and f: "\<And>a. alike V1 V' (f a)"
  shows "alike V V' (bindE m f)"
  unfolding alike_def
proof (intro allI impI)
  fix s t :: "('p, 'm, 'i, 'c, 'w) process"
  assume st: "agree_vars V s t"
  obtain r1 s1 where ms: "m s = (r1, s1)" by (cases "m s")
  obtain r2 t1 where mt: "m t = (r2, t1)" by (cases "m t")
  from m st ms mt have r: "r2 = r1" and e1: "echo s s1 t t1"
      and ok: "\<forall>a. r1 = Inr a \<longrightarrow> agree_vars V1 s1 t1"
    unfolding alike_def by force+
  show "fst (bindE m f s) = fst (bindE m f t) \<and> echo s (snd (bindE m f s)) t (snd (bindE m f t))
      \<and> (\<forall>a. fst (bindE m f s) = Inr a \<longrightarrow>
            agree_vars V' (snd (bindE m f s)) (snd (bindE m f t)))"
  proof (cases r1)
    case (Inl e)
    with ms mt r e1 show ?thesis by (simp add: bindE_def)
  next
    case (Inr a)
    with ok have "agree_vars V1 s1 t1" by simp
    with f[of a] have fa: "fst (f a s1) = fst (f a t1) \<and> echo s1 (snd (f a s1)) t1 (snd (f a t1))
        \<and> (\<forall>b. fst (f a s1) = Inr b \<longrightarrow> agree_vars V' (snd (f a s1)) (snd (f a t1)))"
      unfolding alike_def by blast
    from fa e1 have "echo s (snd (f a s1)) t (snd (f a t1))"
      by (blast intro: echo_trans)
    with fa ms mt r Inr show ?thesis by (simp add: bindE_def)
  qed
qed

lemma alike_bindE_same:
  fixes m :: "('a, ('p, 'm, 'i, 'c, 'w) process) script"
    and f :: "'a \<Rightarrow> ('b, ('p, 'm, 'i, 'c, 'w) process) script"
  assumes "alike V V m" and "\<And>a. alike V V' (f a)"
  shows "alike V V' (bindE m f)"
  using assms by (rule alike_bindE)

lemma alike_external:
  fixes operation :: "'w \<Rightarrow> (exn + 'a) \<times> 'w"
  assumes "world_independent operation"
  shows "alike V V (external n operation ::  ('a, ('p, 'm, 'i, 'c, 'w) process) script)"
  unfolding alike_def
proof (intro allI impI)
  fix s t :: "('p, 'm, 'i, 'c, 'w) process"
  assume st: "agree_vars V s t"
  obtain r w1 where a: "operation (world s) = (r, w1)" by (cases "operation (world s)")
  obtain r' w2 where b: "operation (world t) = (r', w2)" by (cases "operation (world t)")
  from assms a b have r: "r' = r"
    unfolding world_independent_def by (metis fst_conv)
  show "fst (external n operation s) = fst (external n operation t)
      \<and> echo s (snd (external n operation s)) t (snd (external n operation t))
      \<and> (\<forall>a. fst (external n operation s) = Inr a \<longrightarrow>
            agree_vars V (snd (external n operation s)) (snd (external n operation t)))"
    using st a b r
    by (cases r) (simp_all add: external_def echo_def agree_vars_def)
qed

lemma alike_name_lookup:
  fixes var :: "('p, 'm, 'i, 'c, 'w) process \<Rightarrow> 'a option"
  assumes "\<forall>s t. agree_vars V s t \<longrightarrow> var s = var t"
  shows "alike V V (name_lookup x var)"
  unfolding alike_def
proof (intro allI impI)
  fix s t :: "('p, 'm, 'i, 'c, 'w) process"
  assume st: "agree_vars V s t"
  with assms have "var s = var t" by blast
  with st show "fst (name_lookup x var s) = fst (name_lookup x var t)
      \<and> echo s (snd (name_lookup x var s)) t (snd (name_lookup x var t))
      \<and> (\<forall>a. fst (name_lookup x var s) = Inr a \<longrightarrow>
            agree_vars V (snd (name_lookup x var s)) (snd (name_lookup x var t)))"
    by (cases "var t") (simp_all add: name_lookup_def echo_refl)
qed

lemma alike_assign:
  assumes "\<forall>s t. agree_vars V s t \<longrightarrow> agree_vars V' (upd s) (upd t)"
    and "\<forall>s. stdout (upd s) = stdout s" and "\<forall>s. trace (upd s) = trace s"
  shows "alike V V' (assign upd)"
  using assms by (simp add: alike_def assign_def echo_def)

lemma alike_print: "alike V V (py_print x)"
  by (simp add: alike_def py_print_def echo_def agree_vars_def)

lemma alike_return: "alike V V (\<lambda>s. (Inr x, s))"
  by (simp add: alike_def echo_refl)

lemma alike_Cons:
  assumes "alike V V1 c" and "alike V1 V' (run_stmts cs)"
  shows "alike V V' (run_stmts (c # cs))"
  using assms by (simp add: alike_bindE)

lemma alike_Nil: "V' \<subseteq> V \<Longrightarrow> alike V V' (run_stmts [])"
  by (auto simp: alike_def echo_refl agree_vars_def)

lemma alike_weaken: "alike V V' m \<Longrightarrow> V \<subseteq> W \<Longrightarrow> alike W V' m"
  unfolding alike_def agree_vars_def by blast

lemma world_independent_pure: "world_independent (\<lambda>w. (r, w))"
  by (simp add: world_independent_def)

lemma deterministic_ops:
  assumes "library_deterministic lib"
  shows "world_independent (import_from lib ns)"
    and "world_independent (AutoProcessor_from_pretrained lib n)"
    and "world_independent (AutoModelForVision2Seq_from_pretrained lib n)"
    and "world_independent (apply_chat_template lib p ms a b c r)"
    and "world_independent (to_device lib i d)"
    and "world_independent (generate lib m i cap)"
    and "world_independent (decode lib p toks)"
    and "world_independent (pipeline lib task n)"
    and "world_independent (pipe_call lib k ms)"
  using assms unfolding library_deterministic_def by blast+

lemmas alike_rules = alike_bindE_same alike_external alike_name_lookup alike_assign
  alike_print alike_return world_independent_pure

lemma alike_line_2: "library_deterministic lib \<Longrightarrow> alike V V (line_2 lib)"
  by (simp add: line_2_def alike_rules deterministic_ops)

lemma alike_line_4: "library_deterministic lib \<Longrightarrow> alike V (insert Processor V) (line_4 lib)"
  by (simp add: line_4_def alike_rules deterministic_ops agree_vars_def)

lemma alike_line_5: "library_deterministic lib \<Longrightarrow> alike V (insert Model V) (line_5 lib)"
  by (simp add: line_5_def alike_rules deterministic_ops agree_vars_def)

lemma alike_line_6: "alike V (insert Messages V) line_6"
  by (simp add: line_6_def alike_rules agree_vars_def)

lemma alike_line_15:
  "library_deterministic lib \<Longrightarrow> Processor \<in> V \<Longrightarrow> Messages \<in> V \<Longrightarrow> Model \<in> V \<Longrightarrow>
   alike V (insert Inputs V) (line_15 lib)"
  by (simp add: line_15_def alike_rules deterministic_ops agree_vars_def)

lemma alike_line_23:
  "library_deterministic lib \<Longrightarrow> Model \<in> V \<Longrightarrow> Inputs \<in> V \<Longrightarrow>
   alike V (insert Outputs V) (line_23 lib)"
  by (simp add: line_23_def alike_rules deterministic_ops agree_vars_def)

lemma alike_generated_span:
  "Outputs \<in> V \<Longrightarrow> Inputs \<in> V \<Longrightarrow> alike V V (generated_span lib)"
  by (simp add: generated_span_def alike_rules agree_vars_def)

lemma alike_line_24:
  "library_deterministic lib \<Longrightarrow> Processor \<in> V \<Longrightarrow> Outputs \<in> V \<Longrightarrow> Inputs \<in> V \<Longrightarrow>
   alike V V (line_24 lib)"
  by (simp add: line_24_def alike_rules alike_generated_span deterministic_ops agree_vars_def)

lemma alike_line_25: "library_deterministic lib \<Longrightarrow> alike V V (line_25 lib)"
  by (simp add: line_25_def alike_rules deterministic_ops)

lemma alike_line_27: "library_deterministic lib \<Longrightarrow> alike V (insert Pipe V) (line_27 lib)"
  by (simp add: line_27_def alike_rules deterministic_ops agree_vars_def)

lemma alike_line_28: "alike V (insert Messages V) line_28"
  by (simp add: line_28_def alike_rules agree_vars_def)

lemma alike_line_37:
  "library_deterministic lib \<Longrightarrow> Pipe \<in> V \<Longrightarrow> Messages \<in> V \<Longrightarrow> alike V V (line_37 lib)"
  by (simp add: line_37_def alike_rules deterministic_ops agree_vars_def)

lemma alike_direct_api_workflow:
  assumes det: "library_deterministic lib"
  shows "alike V {Processor, Model, Messages, Inputs, Outputs}
           (run_stmts (direct_api_workflow lib))"
  unfolding direct_api_workflow_def
  apply (rule alike_Cons, rule alike_line_2[OF det])
  apply (rule alike_Cons, rule alike_line_4[OF det])
  apply (rule alike_Cons, rule alike_line_5[OF det])
  apply (rule alike_Cons, rule alike_line_6)
  apply (rule alike_Cons, rule alike_line_15[OF det])
     apply simp
    apply simp
   apply simp
  apply (rule alike_Cons, rule alike_line_23[OF det])
    apply simp
   apply simp
  apply (rule alike_Cons, rule alike_line_24[OF det])
     apply simp
    apply simp
   apply simp
  apply (rule alike_Nil)
  apply auto
  done

lemma alike_pipeline_workflow:
  assumes det: "library_deterministic lib"
  shows "alike V (insert Messages (insert Pipe V)) (run_stmts (pipeline_workflow lib))"
  unfolding pipeline_workflow_def
  apply (rule alike_Cons, rule alike_line_25[OF det])
  apply (rule alike_Cons, rule alike_line_27[OF det])
  apply (rule alike_Cons, rule alike_line_28)
  apply (rule alike_Cons, rule alike_line_37[OF det])
    apply simp
   apply simp
  apply (rule alike_Nil)
  apply auto
  done

lemma alike_one_round:
  assumes det: "library_deterministic lib"
  shows "alike V {Processor, Model, Messages, Inputs, Outputs, Pipe} (run_stmts (one_round lib))"
proof -
  have d: "alike V {Processor, Model, Messages, Inputs, Outputs}
      (run_stmts (direct_api_workflow lib))"
    by (rule alike_direct_api_workflow[OF det])
  have p: "alike {Processor, Model, Messages, Inputs, Outputs}
      (insert Messages (insert Pipe {Processor, Model, Messages, Inputs, Outputs}))
      (run_stmts (pipeline_workflow lib))"
    by (rule alike_pipeline_workflow[OF det])
  have eq: "insert Messages (insert Pipe {Processor, Model, Messages, Inputs, Outputs})
      = {Processor, Model, Messages, Inputs, Outputs, Pipe}"
    by auto
  show ?thesis
    unfolding one_round_def run_stmts_append
    by (rule alike_bindE[OF d]) (rule p[unfolded eq])
qed

lemma alike_module:
  assumes det: "library_deterministic lib"
  shows "alike V {Processor, Model, Messages, Inputs, Outputs, Pipe} (run_stmts (module_stmts lib))"
  unfolding module_two_rounds run_stmts_append
  by (rule alike_bindE[OF alike_one_round[OF det]]) (rule alike_one_round[OF det])

lemma demo_lib_deterministic: "library_deterministic demo_lib"
  by (simp add: library_deterministic_def world_independent_def demo_lib_def)

lemmas run_defs = one_round_def direct_api_workflow_def pipeline_workflow_def module_stmts_def
  line_defs script_defs initial_def tensor_getitem0_def slice_from_def shape_last_def

lemma agree_vars_empty: "agree_vars {} s t"
  by (simp add: agree_vars_def)

lemma agree_vars_initial: "agree_vars V (initial w) (initial w')"
  by (simp add: agree_vars_def initial_def)

lemma alike_initial:
  assumes "alike V V' m"
  shows "fst (m (initial w)) = fst (m (initial w'))
       \<and> stdout (snd (m (initial w))) = stdout (snd (m (initial w')))
       \<and> trace (snd (m (initial w))) = trace (snd (m (initial w')))"
proof -
  from assms agree_vars_initial[of V w w']
  have r: "fst (m (initial w)) = fst (m (initial w'))"
    and e: "echo (initial w) (snd (m (initial w))) (initial w') (snd (m (initial w')))"
    unfolding alike_def by blast+
  from e have "stdout (snd (m (initial w))) = stdout (snd (m (initial w')))
      \<and> trace (snd (m (initial w))) = trace (snd (m (initial w')))"
    by (auto simp: echo_def initial_def)
  with r show ?thesis by simp
qed

subsection \<open>C5: determinism is the library's\<close>

text \<open>
  Claim C5, as amended. The module passes no sampling parameter and has no source of
  nondeterminism of its own, so its runs are as deterministic as the library: for a library
  whose replies depend only on the arguments it is given, two runs of the file from any two
  worlds end with the same status, the same printed text and the same uncaught exception,
  and so do two runs of the direct-API workflow alone and two runs of the pipeline workflow
  alone.
\<close>

theorem runs_agree_for_deterministic_library:
  assumes det: "library_deterministic lib"
  shows "python_main lib w = python_main lib w'
       \<and> fst (run_stmts (direct_api_workflow lib) (initial w))
           = fst (run_stmts (direct_api_workflow lib) (initial w'))
       \<and> stdout (snd (run_stmts (direct_api_workflow lib) (initial w)))
           = stdout (snd (run_stmts (direct_api_workflow lib) (initial w')))
       \<and> fst (run_stmts (pipeline_workflow lib) (initial w))
           = fst (run_stmts (pipeline_workflow lib) (initial w'))
       \<and> stdout (snd (run_stmts (pipeline_workflow lib) (initial w)))
           = stdout (snd (run_stmts (pipeline_workflow lib) (initial w')))"
proof -
  note m = alike_initial[OF alike_module[OF det, of "{}"], of w w']
  note d = alike_initial[OF alike_direct_api_workflow[OF det, of "{}"], of w w']
  note p = alike_initial[OF alike_pipeline_workflow[OF det, of "{}"], of w w']
  obtain r s where a: "run_stmts (module_stmts lib) (initial w) = (r, s)"
    by (cases "run_stmts (module_stmts lib) (initial w)")
  obtain r' s' where b: "run_stmts (module_stmts lib) (initial w') = (r', s')"
    by (cases "run_stmts (module_stmts lib) (initial w')")
  from m a b have "r' = r" and "stdout s' = stdout s" by simp_all
  with a b have main: "python_main lib w = python_main lib w'"
    by (cases r) (simp_all add: python_main_def)
  from main d p show ?thesis by simp
qed

text \<open>The sample library replies alike in every world: a run from world 5 prints what a run from world 0 prints.\<close>

theorem runs_agree_for_deterministic_library_witness:
  "library_deterministic demo_lib
   \<and> python_main demo_lib 0 = (0, ''ox'' @ [CHR 0x0A] @ ''ox'' @ [CHR 0x0A], None)
   \<and> python_main demo_lib 5 = (0, ''ox'' @ [CHR 0x0A] @ ''ox'' @ [CHR 0x0A], None)"
proof -
  have run0: "python_main demo_lib 0 = (0, ''ox'' @ [CHR 0x0A] @ ''ox'' @ [CHR 0x0A], None)"
    by (simp add: python_main_def run_defs demo_lib_def)
  from runs_agree_for_deterministic_library[OF demo_lib_deterministic, of 0 5]
  have "python_main demo_lib 0 = python_main demo_lib 5" by simp
  with run0 demo_lib_deterministic show ?thesis by simp
qed

text \<open>
  Claim C5 as stated fails for a library that samples: with the same checkpoint and the same
  message list, the run of the file from world 0 prints \<open>o\<close> then \<open>x\<close> and the run from world 4
  prints \<open>x\<close> twice; the direct-API workflow alone prints \<open>o\<close> from world 0 and \<open>x\<close> from world 4.
\<close>

theorem runs_deterministic_counterexample:
  "python_main sampling_lib 0 = (0, ''o'' @ [CHR 0x0A] @ ''x'' @ [CHR 0x0A], None)
   \<and> python_main sampling_lib 4 = (0, ''x'' @ [CHR 0x0A] @ ''x'' @ [CHR 0x0A], None)
   \<and> stdout (snd (run_stmts (direct_api_workflow sampling_lib) (initial 0))) = ''o'' @ [CHR 0x0A]
   \<and> stdout (snd (run_stmts (direct_api_workflow sampling_lib) (initial 4))) = ''x'' @ [CHR 0x0A]"
  by (simp add: python_main_def run_defs sampling_lib_def demo_lib_def)

lemma second_round_repeats:
  fixes s :: "('p, 'm, 'i, 'c, 'w) process"
  assumes det: "library_deterministic lib"
    and ok: "fst (run_stmts (one_round lib) s) = Inr ()"
  shows "fst (run_stmts (one_round lib) (snd (run_stmts (one_round lib) s))) = Inr ()
       \<and> (\<exists>out. stdout (snd (run_stmts (one_round lib) s)) = stdout s @ out
            \<and> stdout (snd (run_stmts (one_round lib) (snd (run_stmts (one_round lib) s))))
                = stdout (snd (run_stmts (one_round lib) s)) @ out)
       \<and> (\<exists>tr. trace (snd (run_stmts (one_round lib) s)) = trace s @ tr
            \<and> trace (snd (run_stmts (one_round lib) (snd (run_stmts (one_round lib) s))))
                = trace (snd (run_stmts (one_round lib) s)) @ tr)
       \<and> agree_vars {Processor, Model, Messages, Inputs, Outputs, Pipe}
            (snd (run_stmts (one_round lib) s))
            (snd (run_stmts (one_round lib) (snd (run_stmts (one_round lib) s))))"
proof -
  define s1 where "s1 = snd (run_stmts (one_round lib) s)"
  define s2 where "s2 = snd (run_stmts (one_round lib) s1)"
  from alike_one_round[OF det, of "{}"] agree_vars_empty[of s s1]
  have r: "fst (run_stmts (one_round lib) s) = fst (run_stmts (one_round lib) s1)"
    and e: "echo s (snd (run_stmts (one_round lib) s)) s1 (snd (run_stmts (one_round lib) s1))"
    and v: "\<forall>a. fst (run_stmts (one_round lib) s) = Inr a \<longrightarrow>
        agree_vars {Processor, Model, Messages, Inputs, Outputs, Pipe}
          (snd (run_stmts (one_round lib) s)) (snd (run_stmts (one_round lib) s1))"
    unfolding alike_def by blast+
  from r ok have ok2: "fst (run_stmts (one_round lib) s1) = Inr ()" by simp
  from e have e': "echo s s1 s1 s2" by (simp add: s1_def s2_def)
  then obtain out tr where "stdout s1 = stdout s @ out" "stdout s2 = stdout s1 @ out"
      "trace s1 = trace s @ tr" "trace s2 = trace s1 @ tr"
    unfolding echo_def by blast
  then have outs: "\<exists>out. stdout s1 = stdout s @ out \<and> stdout s2 = stdout s1 @ out"
    and trs: "\<exists>tr. trace s1 = trace s @ tr \<and> trace s2 = trace s1 @ tr"
    by blast+
  from v ok have vars: "agree_vars {Processor, Model, Messages, Inputs, Outputs, Pipe} s1 s2"
    by (simp add: s1_def s2_def)
  from ok2 outs trs vars show ?thesis
    unfolding s2_def s1_def by blast
qed

subsection \<open>C10: the file is one round written twice\<close>

text \<open>
  Claim C10, as amended. The statements of lines 38 to 73 are those of lines 1 to 37 over
  again, so the module is one round (direct-API workflow, then pipeline workflow) followed by
  the same round, and a run of the file is a run of the round followed, if it raised nothing,
  by a run of the same round from the state the first one left. A round that succeeds makes
  its twelve library calls in the order direct-API, then pipeline. A round does not depend on
  what the six global variables held before it: from two states that differ only in them it
  returns the same result with the same output, calls and world, and on success the same
  state, every variable having been bound again from the literals of the round. The second
  round does start in the world the first one left: when the replies of the library do not
  depend on the world, a second round after a successful first one succeeds too, prints the
  same text, makes the same calls with the same outcomes and binds the same six values.
\<close>

theorem module_runs_one_round_twice:
  "module_stmts lib = one_round lib @ one_round lib
   \<and> run_stmts (module_stmts lib)
       = bindE (run_stmts (one_round lib)) (\<lambda>_. run_stmts (one_round lib))
   \<and> (fst (run_stmts (one_round lib) s) = Inr () \<longrightarrow>
        map fst (trace (snd (run_stmts (one_round lib) s))) = map fst (trace s) @ round_calls)
   \<and> (let t = s\<lparr>processor := a, model := b, messages := c, inputs := d, outputs := e,
                  pipe := f\<rparr>
      in fst (run_stmts (one_round lib) t) = fst (run_stmts (one_round lib) s)
       \<and> stdout (snd (run_stmts (one_round lib) t)) = stdout (snd (run_stmts (one_round lib) s))
       \<and> trace (snd (run_stmts (one_round lib) t)) = trace (snd (run_stmts (one_round lib) s))
       \<and> world (snd (run_stmts (one_round lib) t)) = world (snd (run_stmts (one_round lib) s))
       \<and> (fst (run_stmts (one_round lib) s) = Inr () \<longrightarrow>
            snd (run_stmts (one_round lib) t) = snd (run_stmts (one_round lib) s)))
   \<and> (library_deterministic lib \<and> fst (run_stmts (one_round lib) s) = Inr () \<longrightarrow>
       (let s1 = snd (run_stmts (one_round lib) s); s2 = snd (run_stmts (one_round lib) s1)
        in fst (run_stmts (one_round lib) s1) = Inr ()
         \<and> (\<exists>out. stdout s1 = stdout s @ out \<and> stdout s2 = stdout s1 @ out)
         \<and> (\<exists>tr. trace s1 = trace s @ tr \<and> trace s2 = trace s1 @ tr)
         \<and> processor s2 = processor s1 \<and> model s2 = model s1 \<and> messages s2 = messages s1
         \<and> inputs s2 = inputs s1 \<and> outputs s2 = outputs s1 \<and> pipe s2 = pipe s1))"
proof -
  define t where "t = s\<lparr>processor := a, model := b, messages := c, inputs := d, outputs := e,
                  pipe := f\<rparr>"
  have calls: "fst (run_stmts (one_round lib) s) = Inr () \<longrightarrow>
        map fst (trace (snd (run_stmts (one_round lib) s))) = map fst (trace s) @ round_calls"
  proof
    assume ok: "fst (run_stmts (one_round lib) s) = Inr ()"
    then have "run_stmts (one_round lib) s = (Inr (), snd (run_stmts (one_round lib) s))"
      by (cases "run_stmts (one_round lib) s") simp
    with emits_one_round[of lib]
    show "map fst (trace (snd (run_stmts (one_round lib) s))) = map fst (trace s) @ round_calls"
      unfolding emits_def by blast
  qed
  have "agree {} t s" by (simp add: agree_def t_def)
  with same_run_one_round[of lib]
  have rel: "fst (run_stmts (one_round lib) t) = fst (run_stmts (one_round lib) s)
      \<and> agree {} (snd (run_stmts (one_round lib) t)) (snd (run_stmts (one_round lib) s))
      \<and> (fst (run_stmts (one_round lib) t) = Inr () \<longrightarrow>
           agree {Processor, Model, Messages, Inputs, Outputs, Pipe}
             (snd (run_stmts (one_round lib) t)) (snd (run_stmts (one_round lib) s)))"
    unfolding same_run_def by blast
  from rel have same: "fst (run_stmts (one_round lib) s) = Inr () \<longrightarrow>
            snd (run_stmts (one_round lib) t) = snd (run_stmts (one_round lib) s)"
    by (auto dest: agree_all_eq)
  from rel have obs: "stdout (snd (run_stmts (one_round lib) t)) = stdout (snd (run_stmts (one_round lib) s))
       \<and> trace (snd (run_stmts (one_round lib) t)) = trace (snd (run_stmts (one_round lib) s))
       \<and> world (snd (run_stmts (one_round lib) t)) = world (snd (run_stmts (one_round lib) s))"
    by (simp add: agree_def)
  from rel obs same have indep: "fst (run_stmts (one_round lib) t) = fst (run_stmts (one_round lib) s)
       \<and> stdout (snd (run_stmts (one_round lib) t)) = stdout (snd (run_stmts (one_round lib) s))
       \<and> trace (snd (run_stmts (one_round lib) t)) = trace (snd (run_stmts (one_round lib) s))
       \<and> world (snd (run_stmts (one_round lib) t)) = world (snd (run_stmts (one_round lib) s))
       \<and> (fst (run_stmts (one_round lib) s) = Inr () \<longrightarrow>
            snd (run_stmts (one_round lib) t) = snd (run_stmts (one_round lib) s))"
    by blast
  have again: "library_deterministic lib \<and> fst (run_stmts (one_round lib) s) = Inr () \<longrightarrow>
       (let s1 = snd (run_stmts (one_round lib) s); s2 = snd (run_stmts (one_round lib) s1)
        in fst (run_stmts (one_round lib) s1) = Inr ()
         \<and> (\<exists>out. stdout s1 = stdout s @ out \<and> stdout s2 = stdout s1 @ out)
         \<and> (\<exists>tr. trace s1 = trace s @ tr \<and> trace s2 = trace s1 @ tr)
         \<and> processor s2 = processor s1 \<and> model s2 = model s1 \<and> messages s2 = messages s1
         \<and> inputs s2 = inputs s1 \<and> outputs s2 = outputs s1 \<and> pipe s2 = pipe s1)"
  proof
    assume h: "library_deterministic lib \<and> fst (run_stmts (one_round lib) s) = Inr ()"
    from h have det: "library_deterministic lib" by (rule conjunct1)
    from h have ok: "fst (run_stmts (one_round lib) s) = Inr ()" by (rule conjunct2)
    from second_round_repeats[OF det ok]
    show "let s1 = snd (run_stmts (one_round lib) s); s2 = snd (run_stmts (one_round lib) s1)
        in fst (run_stmts (one_round lib) s1) = Inr ()
         \<and> (\<exists>out. stdout s1 = stdout s @ out \<and> stdout s2 = stdout s1 @ out)
         \<and> (\<exists>tr. trace s1 = trace s @ tr \<and> trace s2 = trace s1 @ tr)
         \<and> processor s2 = processor s1 \<and> model s2 = model s1 \<and> messages s2 = messages s1
         \<and> inputs s2 = inputs s1 \<and> outputs s2 = outputs s1 \<and> pipe s2 = pipe s1"
      unfolding Let_def by (simp add: agree_vars_def)
  qed
  have indep': "let t = s\<lparr>processor := a, model := b, messages := c, inputs := d, outputs := e,
                  pipe := f\<rparr>
      in fst (run_stmts (one_round lib) t) = fst (run_stmts (one_round lib) s)
       \<and> stdout (snd (run_stmts (one_round lib) t)) = stdout (snd (run_stmts (one_round lib) s))
       \<and> trace (snd (run_stmts (one_round lib) t)) = trace (snd (run_stmts (one_round lib) s))
       \<and> world (snd (run_stmts (one_round lib) t)) = world (snd (run_stmts (one_round lib) s))
       \<and> (fst (run_stmts (one_round lib) s) = Inr () \<longrightarrow>
            snd (run_stmts (one_round lib) t) = snd (run_stmts (one_round lib) s))"
    unfolding Let_def using indep[unfolded t_def] .
  show ?thesis
    by (rule conjI[OF module_two_rounds conjI[OF run_module_two_rounds
          conjI[OF calls conjI[OF indep' again]]]])
qed

text \<open>
  Two rounds under the sample library, whose replies do not depend on the world: the first
  prints \<open>ox\<close>, the second prints \<open>ox\<close> again, and the whole file prints it twice.
\<close>

theorem module_runs_one_round_twice_witness:
  "library_deterministic demo_lib
   \<and> fst (run_stmts (one_round demo_lib) (initial 0)) = Inr ()
   \<and> map fst (trace (snd (run_stmts (one_round demo_lib) (initial 0)))) = round_calls
   \<and> stdout (snd (run_stmts (one_round demo_lib) (initial 0))) = ''ox'' @ [CHR 0x0A]
   \<and> fst (run_stmts (one_round demo_lib) (snd (run_stmts (one_round demo_lib) (initial 0))))
       = Inr ()
   \<and> stdout (snd (run_stmts (one_round demo_lib)
        (snd (run_stmts (one_round demo_lib) (initial 0)))))
       = ''ox'' @ [CHR 0x0A] @ ''ox'' @ [CHR 0x0A]
   \<and> snd (run_stmts (one_round demo_lib)
        ((initial 0)\<lparr>processor := Some ''stale'', model := Some ''stale'', messages := None,
           inputs := Some [], outputs := None, pipe := Some ''stale''\<rparr>))
     = snd (run_stmts (one_round demo_lib) (initial 0))"
proof -
  have ok: "fst (run_stmts (one_round demo_lib) (initial 0)) = Inr ()"
    by (simp add: run_defs demo_lib_def)
  have out1: "stdout (snd (run_stmts (one_round demo_lib) (initial 0))) = ''ox'' @ [CHR 0x0A]"
    by (simp add: run_defs demo_lib_def)
  have start: "trace (initial 0 :: (string, string, token list, string, nat) process) = []"
      "stdout (initial 0 :: (string, string, token list, string, nat) process) = []"
    by (simp_all add: initial_def)
  note inst = module_runs_one_round_twice[where lib = demo_lib and s = "initial 0"
      and a = "Some ''stale''" and b = "Some ''stale''" and c = None and d = "Some []"
      and e = None and f = "Some ''stale''", unfolded Let_def]
  from inst ok have calls: "map fst (trace (snd (run_stmts (one_round demo_lib) (initial 0))))
      = round_calls"
    by (simp add: start)
  from inst ok have stale: "snd (run_stmts (one_round demo_lib)
        ((initial 0)\<lparr>processor := Some ''stale'', model := Some ''stale'', messages := None,
           inputs := Some [], outputs := None, pipe := Some ''stale''\<rparr>))
     = snd (run_stmts (one_round demo_lib) (initial 0))"
    by blast
  from inst ok demo_lib_deterministic
  have again: "fst (run_stmts (one_round demo_lib) (snd (run_stmts (one_round demo_lib) (initial 0))))
       = Inr ()
     \<and> (\<exists>out. stdout (snd (run_stmts (one_round demo_lib) (initial 0)))
              = stdout (initial 0 :: (string, string, token list, string, nat) process) @ out
          \<and> stdout (snd (run_stmts (one_round demo_lib)
               (snd (run_stmts (one_round demo_lib) (initial 0)))))
              = stdout (snd (run_stmts (one_round demo_lib) (initial 0))) @ out)"
    by blast
  then have out2: "stdout (snd (run_stmts (one_round demo_lib)
        (snd (run_stmts (one_round demo_lib) (initial 0)))))
       = ''ox'' @ [CHR 0x0A] @ ''ox'' @ [CHR 0x0A]"
    by (auto simp: out1 start)
  from demo_lib_deterministic ok calls out1 again out2 stale show ?thesis by blast
qed

text \<open>
  Claim C10 as stated fails for a library that samples: the same round, run a second time
  from the state the first run left, prints \<open>x\<close> where the first printed \<open>o\<close>.
\<close>

theorem second_round_identical_counterexample:
  "fst (run_stmts (one_round sampling_lib) (initial 0)) = Inr ()
   \<and> stdout (snd (run_stmts (one_round sampling_lib) (initial 0))) = ''o'' @ [CHR 0x0A]
   \<and> fst (run_stmts (one_round sampling_lib)
        (snd (run_stmts (one_round sampling_lib) (initial 0)))) = Inr ()
   \<and> stdout (snd (run_stmts (one_round sampling_lib)
        (snd (run_stmts (one_round sampling_lib) (initial 0)))))
       = ''o'' @ [CHR 0x0A] @ ''x'' @ [CHR 0x0A]
   \<and> outputs (snd (run_stmts (one_round sampling_lib) (initial 0)))
       = Some (Tensor2 4 [[11, 12, 13, 3]])
   \<and> outputs (snd (run_stmts (one_round sampling_lib)
        (snd (run_stmts (one_round sampling_lib) (initial 0)))))
       = Some (Tensor2 4 [[11, 12, 13, 7]])"
  by (simp add: run_defs sampling_lib_def demo_lib_def)

end
